theory Spec2Isabelle
  imports Main "HOL-Library.AList"
begin

section \<open>The node classes of \<^verbatim>\<open>bolt/ast.py\<close>\<close>

text \<open>
  \<^verbatim>\<open>bolt/ast.py\<close> declares thirty-four frozen dataclasses. Three of their bases
  (\<^verbatim>\<open>AstNode\<close>, \<^verbatim>\<open>AstRoot\<close>, \<^verbatim>\<open>AstLiteral\<close>) are imported from the package
  \<^verbatim>\<open>mecha\<close>; they appear here as classes whose attributes are a parameter of the
  model (see \<open>env\<close> below).
\<close>

datatype cls =
    AstNode | AstRoot | AstLiteral
  | AstModuleRoot
  | AstExpression | AstExpressionBinary | AstExpressionUnary | AstValue | AstIdentifier
  | AstFormatString | AstTuple | AstList | AstDictItem | AstDict | AstSlice | AstUnpack
  | AstKeyword | AstAttribute | AstLookup | AstCall
  | AstTarget | AstTargetIdentifier | AstTargetUnpack | AstTargetAttribute | AstTargetItem
  | AstAssignment | AstDecorator | AstFunctionSignatureArgument | AstFunctionSignature
  | AstDeferredRoot
  | AstMacroLiteral | AstMacroArgument
  | AstMacroMatch | AstMacroMatchLiteral | AstMacroMatchArgument
  | AstInterpolation | AstImportedIdentifier

text \<open>The classes that \<^verbatim>\<open>bolt/ast.py\<close> imports instead of declaring.\<close>

definition external :: "cls \<Rightarrow> bool" where
  "external c = (c = AstNode \<or> c = AstRoot \<or> c = AstLiteral)"

text \<open>
  The base named in each \<^verbatim>\<open>class\<close> statement. The bases of the three imported
  classes are outside the module; whatever they are, they were fixed before this
  module was loaded, so none of them is a class of this module.
\<close>

fun base :: "cls \<Rightarrow> cls option" where
  "base AstNode = None"
| "base AstRoot = None"
| "base AstLiteral = None"
| "base AstModuleRoot = Some AstRoot"
| "base AstExpression = Some AstNode"
| "base AstExpressionBinary = Some AstExpression"
| "base AstExpressionUnary = Some AstExpression"
| "base AstValue = Some AstExpression"
| "base AstIdentifier = Some AstExpression"
| "base AstFormatString = Some AstExpression"
| "base AstTuple = Some AstExpression"
| "base AstList = Some AstExpression"
| "base AstDictItem = Some AstNode"
| "base AstDict = Some AstExpression"
| "base AstSlice = Some AstNode"
| "base AstUnpack = Some AstNode"
| "base AstKeyword = Some AstNode"
| "base AstAttribute = Some AstExpression"
| "base AstLookup = Some AstExpression"
| "base AstCall = Some AstExpression"
| "base AstTarget = Some AstNode"
| "base AstTargetIdentifier = Some AstTarget"
| "base AstTargetUnpack = Some AstTarget"
| "base AstTargetAttribute = Some AstTarget"
| "base AstTargetItem = Some AstTarget"
| "base AstAssignment = Some AstNode"
| "base AstDecorator = Some AstNode"
| "base AstFunctionSignatureArgument = Some AstNode"
| "base AstFunctionSignature = Some AstNode"
| "base AstDeferredRoot = Some AstNode"
| "base AstMacroLiteral = Some AstLiteral"
| "base AstMacroArgument = Some AstLiteral"
| "base AstMacroMatch = Some AstNode"
| "base AstMacroMatchLiteral = Some AstMacroMatch"
| "base AstMacroMatchArgument = Some AstMacroMatch"
| "base AstInterpolation = Some AstNode"
| "base AstImportedIdentifier = Some AstNode"

text \<open>The \<^verbatim>\<open>frozen\<close> argument of each \<^verbatim>\<open>@dataclass\<close> decorator. A frozen dataclass
  can only inherit from frozen dataclasses, so the imported bases are frozen too.\<close>

fun frozen :: "cls \<Rightarrow> bool" where
  "frozen AstNode = True"
| "frozen AstRoot = True"
| "frozen AstLiteral = True"
| "frozen AstModuleRoot = True"
| "frozen AstExpression = True"
| "frozen AstExpressionBinary = True"
| "frozen AstExpressionUnary = True"
| "frozen AstValue = True"
| "frozen AstIdentifier = True"
| "frozen AstFormatString = True"
| "frozen AstTuple = True"
| "frozen AstList = True"
| "frozen AstDictItem = True"
| "frozen AstDict = True"
| "frozen AstSlice = True"
| "frozen AstUnpack = True"
| "frozen AstKeyword = True"
| "frozen AstAttribute = True"
| "frozen AstLookup = True"
| "frozen AstCall = True"
| "frozen AstTarget = True"
| "frozen AstTargetIdentifier = True"
| "frozen AstTargetUnpack = True"
| "frozen AstTargetAttribute = True"
| "frozen AstTargetItem = True"
| "frozen AstAssignment = True"
| "frozen AstDecorator = True"
| "frozen AstFunctionSignatureArgument = True"
| "frozen AstFunctionSignature = True"
| "frozen AstDeferredRoot = True"
| "frozen AstMacroLiteral = True"
| "frozen AstMacroArgument = True"
| "frozen AstMacroMatch = True"
| "frozen AstMacroMatchLiteral = True"
| "frozen AstMacroMatchArgument = True"
| "frozen AstInterpolation = True"
| "frozen AstImportedIdentifier = True"

text \<open>How far a class is from an imported base; the measure for walking up.\<close>

fun depth :: "cls \<Rightarrow> nat" where
  "depth c = (case base c of None \<Rightarrow> 0
     | Some b \<Rightarrow> (case base b of None \<Rightarrow> 1 | Some a \<Rightarrow> 2))"

text \<open>The method resolution order: the class, then its base, and so on.\<close>

function mro :: "cls \<Rightarrow> cls list" where
  "mro c = (case base c of None \<Rightarrow> [c] | Some b \<Rightarrow> c # mro b)"
  by pat_completeness auto
termination
proof (relation "measure depth")
  show "wf (measure depth)" by simp
next
  fix c b
  assume "base c = Some b"
  then have "depth b < depth c" by (cases c) auto
  then show "(b, c) \<in> measure depth" by simp
qed

declare mro.simps [simp del]

definition issubclass :: "cls \<Rightarrow> cls \<Rightarrow> bool" where
  "issubclass c d = (d \<in> set (mro c))"

section \<open>Values\<close>

text \<open>
  Objects of classes that the module only refers to: the token stream held by
  \<^verbatim>\<open>AstDeferredRoot\<close>, and the resource location and JSON nodes held by
  \<^verbatim>\<open>AstMacroMatchArgument\<close>. Such an object is known by its class and its
  identity only.
\<close>

datatype ext_cls = TokenStream | AstResourceLocation | AstJson

text \<open>
  The values an attribute can hold. \<open>PNone\<close>, \<open>PBool\<close>, \<open>PInt\<close>, \<open>PStr\<close> and
  \<open>PList\<close> are Python's \<^verbatim>\<open>None\<close>, booleans, integers, strings and lists (the payloads
  of \<^verbatim>\<open>AstValue.value: Any\<close>; floats are left out). \<open>PChildren\<close> is mecha's ordered
  child container \<^verbatim>\<open>AstChildren\<close>. \<open>PNode c attrs\<close> is an instance of class \<open>c\<close>
  with its attributes in the order \<^verbatim>\<open>__init__\<close> assigned them.
\<close>

datatype pyval =
    PNone
  | PBool bool
  | PInt int
  | PStr string
  | PList "pyval list"
  | PObj ext_cls nat
  | PChildren "pyval list"
  | PNode cls "(string \<times> pyval) list"

datatype error =
    TypeError
  | AttributeError
  | FrozenInstanceError
  | MissingRequired cls string

section \<open>Fields\<close>

text \<open>The annotation of a field.\<close>

datatype ftype =
    TStr | TBool | TAny
  | TCls cls
  | TExt ext_cls
  | TOptional ftype
  | TUnion "ftype list"
  | TChildren ftype

text \<open>
  What stands to the right of \<^verbatim>\<open>=\<close> in a field declaration: the marker
  \<^verbatim>\<open>required_field()\<close>, or a default value.
\<close>

datatype fdefault = Required | Default pyval

datatype dfield = Field (fname: string) (ftype: ftype) (fdefault: fdefault) (fcompare: bool)

text \<open>A field declared in a class body of the module takes part in comparison,
  as every dataclass field does unless it says otherwise.\<close>

definition required_field :: "string \<Rightarrow> ftype \<Rightarrow> dfield" where
  "required_field n t = Field n t Required True"

definition default_field :: "string \<Rightarrow> ftype \<Rightarrow> pyval \<Rightarrow> dfield" where
  "default_field n t d = Field n t (Default d) True"

text \<open>The annotated attributes of each class body, in source order. Plain class
  attributes without annotation (\<^verbatim>\<open>parser\<close>, \<^verbatim>\<open>regex\<close>) are not dataclass fields.\<close>

fun own_fields :: "cls \<Rightarrow> dfield list" where
  "own_fields AstNode = []"
| "own_fields AstRoot = []"
| "own_fields AstLiteral = []"
| "own_fields AstModuleRoot = []"
| "own_fields AstExpression = []"
| "own_fields AstExpressionBinary =
    [required_field ''operator'' TStr,
     required_field ''left'' (TCls AstExpression),
     required_field ''right'' (TCls AstExpression)]"
| "own_fields AstExpressionUnary =
    [required_field ''operator'' TStr,
     required_field ''value'' (TCls AstExpression)]"
| "own_fields AstValue = [required_field ''value'' TAny]"
| "own_fields AstIdentifier = [required_field ''value'' TStr]"
| "own_fields AstFormatString =
    [required_field ''fmt'' TStr,
     required_field ''values'' (TChildren (TCls AstExpression))]"
| "own_fields AstTuple = [required_field ''items'' (TChildren (TCls AstExpression))]"
| "own_fields AstList = [required_field ''items'' (TChildren (TCls AstExpression))]"
| "own_fields AstDictItem =
    [required_field ''key'' (TCls AstExpression),
     required_field ''value'' (TCls AstExpression)]"
| "own_fields AstDict = [required_field ''items'' (TChildren (TCls AstDictItem))]"
| "own_fields AstSlice =
    [default_field ''start'' (TOptional (TCls AstExpression)) PNone,
     default_field ''stop'' (TOptional (TCls AstExpression)) PNone,
     default_field ''step'' (TOptional (TCls AstExpression)) PNone]"
| "own_fields AstUnpack =
    [required_field ''type'' TStr,
     required_field ''value'' (TCls AstExpression)]"
| "own_fields AstKeyword =
    [required_field ''name'' TStr,
     required_field ''value'' (TCls AstExpression)]"
| "own_fields AstAttribute =
    [required_field ''name'' TStr,
     required_field ''value'' (TCls AstExpression)]"
| "own_fields AstLookup =
    [required_field ''value'' (TCls AstExpression),
     required_field ''arguments''
       (TChildren (TUnion [TCls AstExpression, TCls AstSlice]))]"
| "own_fields AstCall =
    [required_field ''value'' (TCls AstExpression),
     required_field ''arguments''
       (TChildren (TUnion [TCls AstExpression, TCls AstUnpack, TCls AstKeyword]))]"
| "own_fields AstTarget = []"
| "own_fields AstTargetIdentifier =
    [required_field ''value'' TStr,
     default_field ''rebind'' TBool (PBool False)]"
| "own_fields AstTargetUnpack = [required_field ''targets'' (TChildren (TCls AstTarget))]"
| "own_fields AstTargetAttribute =
    [required_field ''name'' TStr,
     required_field ''value'' (TCls AstExpression)]"
| "own_fields AstTargetItem =
    [required_field ''value'' (TCls AstExpression),
     required_field ''arguments''
       (TChildren (TUnion [TCls AstExpression, TCls AstSlice]))]"
| "own_fields AstAssignment =
    [required_field ''operator'' TStr,
     required_field ''target'' (TCls AstTarget),
     required_field ''value'' (TCls AstExpression)]"
| "own_fields AstDecorator = [required_field ''expression'' (TCls AstExpression)]"
| "own_fields AstFunctionSignatureArgument =
    [required_field ''name'' TStr,
     default_field ''default'' (TOptional (TCls AstExpression)) PNone]"
| "own_fields AstFunctionSignature =
    [default_field ''decorators'' (TChildren (TCls AstDecorator)) (PChildren []),
     required_field ''name'' TStr,
     required_field ''arguments'' (TChildren (TCls AstFunctionSignatureArgument))]"
| "own_fields AstDeferredRoot = [required_field ''stream'' (TExt TokenStream)]"
| "own_fields AstMacroLiteral = []"
| "own_fields AstMacroArgument = []"
| "own_fields AstMacroMatch = []"
| "own_fields AstMacroMatchLiteral = [required_field ''match'' (TCls AstMacroLiteral)]"
| "own_fields AstMacroMatchArgument =
    [required_field ''match_identifier'' (TCls AstMacroArgument),
     required_field ''match_argument_parser'' (TExt AstResourceLocation),
     default_field ''match_argument_properties'' (TOptional (TExt AstJson)) PNone]"
| "own_fields AstInterpolation =
    [default_field ''prefix'' (TOptional TStr) PNone,
     default_field ''unpack'' (TOptional TStr) PNone,
     required_field ''converter'' TStr,
     required_field ''value'' (TCls AstExpression)]"
| "own_fields AstImportedIdentifier = [required_field ''value'' TStr]"

section \<open>What the module takes from elsewhere\<close>

text \<open>
  The parts of the imported packages that the behaviour of the module's classes
  depends on, as parameters:
  \<^item> \<open>base_fields\<close>: the dataclass fields of the imported bases \<^verbatim>\<open>AstNode\<close>,
    \<^verbatim>\<open>AstRoot\<close> and \<^verbatim>\<open>AstLiteral\<close>, inherited ones included, each with its
    default and with whether it takes part in comparison;
  \<^item> \<open>obj_eq\<close> and \<open>obj_hash\<close>: \<^verbatim>\<open>__eq__\<close> and \<^verbatim>\<open>__hash__\<close> of the objects of
    referenced classes (\<open>ext_cls\<close>);
  \<^item> \<open>children_hash\<close>: \<^verbatim>\<open>__hash__\<close> of \<^verbatim>\<open>AstChildren\<close>;
  \<^item> \<open>none_hash\<close>, \<open>int_hash\<close>, \<open>str_hash\<close>, \<open>tuple_hash\<close>: Python's hashes of
    \<^verbatim>\<open>None\<close>, integers, strings and tuples (they differ between interpreters and runs).
\<close>

record env =
  base_fields :: "cls \<Rightarrow> dfield list"
  obj_eq :: "ext_cls \<times> nat \<Rightarrow> ext_cls \<times> nat \<Rightarrow> bool"
  obj_hash :: "ext_cls \<times> nat \<Rightarrow> error + int"
  children_hash :: "pyval list \<Rightarrow> error + int"
  none_hash :: int
  int_hash :: "int \<Rightarrow> int"
  str_hash :: "string \<Rightarrow> int"
  tuple_hash :: "int list \<Rightarrow> int"

section \<open>The fields of a dataclass\<close>

text \<open>
  \<^verbatim>\<open>@dataclass\<close> collects the fields of a class in an ordered dictionary: the
  fields of the bases in reverse method resolution order, then the class's own; a
  field declared again keeps its first position and takes the new declaration.
\<close>

fun merge_field :: "dfield list \<Rightarrow> dfield \<Rightarrow> dfield list" where
  "merge_field [] f = [f]"
| "merge_field (g # gs) f = (if fname g = fname f then f # gs else g # merge_field gs f)"

definition merge_fields :: "dfield list \<Rightarrow> dfield list \<Rightarrow> dfield list" where
  "merge_fields acc fs = fold (\<lambda>f a. merge_field a f) fs acc"

definition class_fields :: "env \<Rightarrow> cls \<Rightarrow> dfield list" where
  "class_fields e c = (if external c then base_fields e c else own_fields c)"

definition fields_of :: "env \<Rightarrow> cls \<Rightarrow> dfield list" where
  "fields_of e c = fold (\<lambda>k acc. merge_fields acc (class_fields e k)) (rev (mro c)) []"

definition field_names :: "env \<Rightarrow> cls \<Rightarrow> string list" where
  "field_names e c = map fname (fields_of e c)"

definition compared :: "env \<Rightarrow> cls \<Rightarrow> string list" where
  "compared e c = map fname (filter fcompare (fields_of e c))"

section \<open>Construction\<close>

text \<open>
  The generated \<^verbatim>\<open>__init__\<close> takes one parameter per field, in field order, each
  with the field's default. Python binds the positional arguments to the first
  parameters and the keyword arguments by name, and raises \<^verbatim>\<open>TypeError\<close> for too
  many positional arguments, for a parameter given twice and for a keyword that
  is no parameter.
\<close>

definition bind_args ::
  "string list \<Rightarrow> pyval list \<Rightarrow> (string \<times> pyval) list \<Rightarrow> error + (string \<times> pyval) list" where
  "bind_args names args kw =
     (if length names < length args then Inl TypeError
      else if \<not> distinct (map fst (zip names args @ kw)) then Inl TypeError
      else if \<not> list_all (\<lambda>k. k \<in> set names) (map fst kw) then Inl TypeError
      else Inr (zip names args @ kw))"

text \<open>
  Modelled from the spec: \<^verbatim>\<open>required_field\<close> is imported from \<^verbatim>\<open>beet.core.utils\<close>,
  which is not among the sources, and so is whatever inspects it when a node is
  built. The spec describes it as a marker "usable as a field default", "enforced at
  construction time rather than at definition time", such that "constructing any
  node [...] while a required attribute is left unset signals a construction error
  identifying the missing attribute by name and owning node type".
\<close>

definition unset_required :: "cls \<Rightarrow> string \<Rightarrow> error + pyval" where
  "unset_required c n = Inl (MissingRequired c n)"

text \<open>The value a field gets: the argument bound to it, else its default.\<close>

definition resolve :: "cls \<Rightarrow> dfield \<Rightarrow> (string \<times> pyval) list \<Rightarrow> error + pyval" where
  "resolve c f b =
     (case map_of b (fname f) of
        Some v \<Rightarrow> Inr v
      | None \<Rightarrow> (case fdefault f of Default d \<Rightarrow> Inr d | Required \<Rightarrow> unset_required c (fname f)))"

fun init_attrs :: "cls \<Rightarrow> dfield list \<Rightarrow> (string \<times> pyval) list \<Rightarrow> error + (string \<times> pyval) list" where
  "init_attrs c [] b = Inr []"
| "init_attrs c (f # fs) b =
     (case resolve c f b of
        Inl err \<Rightarrow> Inl err
      | Inr v \<Rightarrow> (case init_attrs c fs b of
                   Inl err \<Rightarrow> Inl err
                 | Inr rest \<Rightarrow> Inr ((fname f, v) # rest)))"

text \<open>Calling the class: \<open>args\<close> are the positional and \<open>kw\<close> the keyword arguments.
  Annotations are not checked when a dataclass is built.\<close>

definition construct :: "env \<Rightarrow> cls \<Rightarrow> pyval list \<Rightarrow> (string \<times> pyval) list \<Rightarrow> error + pyval" where
  "construct e c args kw =
     (case bind_args (field_names e c) args kw of
        Inl err \<Rightarrow> Inl err
      | Inr b \<Rightarrow> (case init_attrs c (fields_of e c) b of
                   Inl err \<Rightarrow> Inl err
                 | Inr attrs \<Rightarrow> Inr (PNode c attrs)))"

section \<open>Attribute access\<close>

fun py_getattr :: "pyval \<Rightarrow> string \<Rightarrow> error + pyval" where
  "py_getattr (PNode c attrs) n =
     (case map_of attrs n of Some v \<Rightarrow> Inr v | None \<Rightarrow> Inl AttributeError)"
| "py_getattr v n = Inl AttributeError"

text \<open>
  A frozen dataclass raises \<^verbatim>\<open>FrozenInstanceError\<close> from \<^verbatim>\<open>__setattr__\<close> and
  \<^verbatim>\<open>__delattr__\<close> for every attribute name when the object is an instance of that
  very class. Both functions return the outcome and the object as it is afterwards.
\<close>

fun py_setattr :: "pyval \<Rightarrow> string \<Rightarrow> pyval \<Rightarrow> (error + unit) \<times> pyval" where
  "py_setattr (PNode c attrs) n v =
     (if frozen c then (Inl FrozenInstanceError, PNode c attrs)
      else (Inr (), PNode c (AList.update n v attrs)))"
| "py_setattr x n v = (Inl AttributeError, x)"

fun py_delattr :: "pyval \<Rightarrow> string \<Rightarrow> (error + unit) \<times> pyval" where
  "py_delattr (PNode c attrs) n =
     (if frozen c then (Inl FrozenInstanceError, PNode c attrs)
      else if n \<in> fst ` set attrs then (Inr (), PNode c (AList.delete n attrs))
      else (Inl AttributeError, PNode c attrs))"
| "py_delattr x n = (Inl AttributeError, x)"

section \<open>Equality\<close>

text \<open>
  The generated \<^verbatim>\<open>__eq__\<close> answers only for an object of the very same class,
  by comparing the tuples of the compared fields; for any other object it returns
  \<^verbatim>\<open>NotImplemented\<close>, and \<^verbatim>\<open>==\<close> is then false. Tuples and lists compare element
  by element, an element being equal to itself before \<^verbatim>\<open>__eq__\<close> is asked.
  \<^verbatim>\<open>True == 1\<close> and \<^verbatim>\<open>False == 0\<close> hold in Python. \<^verbatim>\<open>AstChildren\<close> compares as the
  spec describes it: an ordered container with structural equality. An object of a
  referenced class is never equal to a value of another kind.
\<close>

fun py_eq :: "env \<Rightarrow> pyval \<Rightarrow> pyval \<Rightarrow> bool"
  and py_eq_list :: "env \<Rightarrow> pyval list \<Rightarrow> pyval list \<Rightarrow> bool"
  and py_eq_attrs :: "env \<Rightarrow> string list \<Rightarrow> (string \<times> pyval) list \<Rightarrow> (string \<times> pyval) list \<Rightarrow> bool"
where
  "py_eq e PNone PNone = True"
| "py_eq e (PBool a) (PBool b) = (a = b)"
| "py_eq e (PInt a) (PInt b) = (a = b)"
| "py_eq e (PBool a) (PInt b) = ((if a then 1 else 0) = b)"
| "py_eq e (PInt a) (PBool b) = (a = (if b then 1 else 0))"
| "py_eq e (PStr a) (PStr b) = (a = b)"
| "py_eq e (PList xs) (PList ys) = py_eq_list e xs ys"
| "py_eq e (PChildren xs) (PChildren ys) = py_eq_list e xs ys"
| "py_eq e (PObj c i) (PObj d j) = ((c = d \<and> i = j) \<or> obj_eq e (c, i) (d, j))"
| "py_eq e (PNode c as) (PNode d bs) = (c = d \<and> py_eq_attrs e (compared e c) as bs)"
| "py_eq e x y = False"
| "py_eq_list e [] [] = True"
| "py_eq_list e (x # xs) (y # ys) = (py_eq e x y \<and> py_eq_list e xs ys)"
| "py_eq_list e xs ys = False"
| "py_eq_attrs e names [] [] = True"
| "py_eq_attrs e names ((k, v) # as) ((k', w) # bs) =
     (k = k' \<and> (k \<in> set names \<longrightarrow> py_eq e v w) \<and> py_eq_attrs e names as bs)"
| "py_eq_attrs e names as bs = False"

section \<open>Hashing\<close>

text \<open>
  \<^verbatim>\<open>@dataclass(frozen=True)\<close> with the default \<^verbatim>\<open>eq=True\<close> generates \<^verbatim>\<open>__hash__\<close> as
  the hash of the tuple of the compared fields. Hashing a tuple hashes its
  elements in order and raises what the first failing element raises; a list is
  unhashable. \<^verbatim>\<open>True\<close> and \<^verbatim>\<open>False\<close> hash as \<^verbatim>\<open>1\<close> and \<^verbatim>\<open>0\<close>.
\<close>

fun py_hash :: "env \<Rightarrow> pyval \<Rightarrow> error + int"
  and py_hash_attrs :: "env \<Rightarrow> string list \<Rightarrow> (string \<times> pyval) list \<Rightarrow> error + int list"
where
  "py_hash e PNone = Inr (none_hash e)"
| "py_hash e (PBool b) = Inr (int_hash e (if b then 1 else 0))"
| "py_hash e (PInt i) = Inr (int_hash e i)"
| "py_hash e (PStr s) = Inr (str_hash e s)"
| "py_hash e (PList xs) = Inl TypeError"
| "py_hash e (PObj c i) = obj_hash e (c, i)"
| "py_hash e (PChildren xs) = children_hash e xs"
| "py_hash e (PNode c as) =
     (case py_hash_attrs e (compared e c) as of
        Inl err \<Rightarrow> Inl err
      | Inr hs \<Rightarrow> Inr (tuple_hash e hs))"
| "py_hash_attrs e names [] = Inr []"
| "py_hash_attrs e names ((k, v) # as) =
     (if k \<in> set names then
        (case py_hash e v of
           Inl err \<Rightarrow> Inl err
         | Inr h \<Rightarrow> (case py_hash_attrs e names as of
                      Inl err \<Rightarrow> Inl err
                    | Inr hs \<Rightarrow> Inr (h # hs)))
      else py_hash_attrs e names as)"

section \<open>Annotations\<close>

text \<open>
  Whether a value is of the annotated type, as a type checker (or \<^verbatim>\<open>isinstance\<close>)
  decides it: a node is of type \<open>TCls d\<close> when its class is \<open>d\<close> or inherits from it.
\<close>

fun accepts :: "ftype \<Rightarrow> pyval \<Rightarrow> bool"
  and accepts_any :: "ftype list \<Rightarrow> pyval \<Rightarrow> bool"
where
  "accepts TStr v = (case v of PStr s \<Rightarrow> True | _ \<Rightarrow> False)"
| "accepts TBool v = (case v of PBool b \<Rightarrow> True | _ \<Rightarrow> False)"
| "accepts TAny v = True"
| "accepts (TCls d) v = (case v of PNode c attrs \<Rightarrow> issubclass c d | _ \<Rightarrow> False)"
| "accepts (TExt x) v = (case v of PObj y i \<Rightarrow> x = y | _ \<Rightarrow> False)"
| "accepts (TOptional t) v = (v = PNone \<or> accepts t v)"
| "accepts (TUnion ts) v = accepts_any ts v"
| "accepts (TChildren t) v = (case v of PChildren xs \<Rightarrow> list_all (accepts t) xs | _ \<Rightarrow> False)"
| "accepts_any [] v = False"
| "accepts_any (t # ts) v = (accepts t v \<or> accepts_any ts v)"

section \<open>Facts about the class hierarchy and the fields\<close>

lemma mro_external: "base c = None \<Longrightarrow> mro c = [c]"
  by (simp add: mro.simps)

lemma mro_step: "base c = Some b \<Longrightarrow> mro c = c # mro b"
  by (subst mro.simps) simp

lemma external_base: "external c \<longleftrightarrow> base c = None"
  by (cases c) (simp_all add: external_def)

lemma fields_of_external: "base c = None \<Longrightarrow> fields_of e c = merge_fields [] (class_fields e c)"
  by (simp add: fields_of_def mro_external)

lemma fields_of_step:
  "base c = Some b \<Longrightarrow> fields_of e c = merge_fields (fields_of e b) (class_fields e c)"
  by (simp add: fields_of_def mro_step)

lemma find_app:
  "find P (xs @ ys) = (case find P xs of None \<Rightarrow> find P ys | Some x \<Rightarrow> Some x)"
  by (induction xs) auto

lemma find_in_set: "find P xs = Some x \<Longrightarrow> x \<in> set xs \<and> P x"
  by (induction xs) (auto split: if_splits)

lemma find_distinct:
  "distinct (map fname fs) \<Longrightarrow> f \<in> set fs \<Longrightarrow> find (\<lambda>g. fname g = fname f) fs = Some f"
  by (induction fs) (auto simp: rev_image_eqI)

lemma find_merge_field:
  "find (\<lambda>g. fname g = k) (merge_field acc f) =
     (if fname f = k then Some f else find (\<lambda>g. fname g = k) acc)"
  by (induction acc) auto

lemma find_merge_fields:
  "find (\<lambda>g. fname g = k) (merge_fields acc fs) =
     (case find (\<lambda>g. fname g = k) (rev fs) of
        Some f \<Rightarrow> Some f
      | None \<Rightarrow> find (\<lambda>g. fname g = k) acc)"
  unfolding merge_fields_def
  by (induction fs arbitrary: acc) (auto simp: find_merge_field find_app split: option.splits)

lemma names_merge_field:
  "set (map fname (merge_field acc f)) = insert (fname f) (set (map fname acc))"
  by (induction acc) auto

lemma distinct_merge_field:
  "distinct (map fname acc) \<Longrightarrow> distinct (map fname (merge_field acc f))"
proof (induction acc)
  case Nil
  then show ?case by simp
next
  case (Cons g gs)
  have "fname g \<in> fname ` set (merge_field gs f) \<longleftrightarrow>
        fname g = fname f \<or> fname g \<in> fname ` set gs"
    using names_merge_field[of gs f] by auto
  with Cons show ?case by auto
qed

lemma distinct_merge_fields:
  "distinct (map fname acc) \<Longrightarrow> distinct (map fname (merge_fields acc fs))"
  unfolding merge_fields_def
  by (induction fs arbitrary: acc) (auto simp: distinct_merge_field)

lemma distinct_fold_merge:
  "distinct (map fname acc) \<Longrightarrow>
   distinct (map fname (fold (\<lambda>k acc. merge_fields acc (class_fields e k)) ks acc))"
  by (induction ks arbitrary: acc) (auto simp: distinct_merge_fields)

lemma distinct_field_names: "distinct (field_names e c)"
  unfolding field_names_def fields_of_def by (rule distinct_fold_merge) simp

lemma set_merge_field: "set (merge_field acc f) \<subseteq> insert f (set acc)"
  by (induction acc) auto

lemma set_merge_fields: "set (merge_fields acc fs) \<subseteq> set acc \<union> set fs"
  unfolding merge_fields_def
proof (induction fs arbitrary: acc)
  case Nil
  then show ?case by simp
next
  case (Cons f fs)
  show ?case using Cons[of "merge_field acc f"] set_merge_field[of acc f] by auto
qed

lemma distinct_own_fields: "distinct (map fname (own_fields c))"
  by (cases c) (simp_all add: required_field_def default_field_def)

lemma own_field_is_field:
  assumes "\<not> external c" "f \<in> set (own_fields c)"
  shows "f \<in> set (fields_of e c)"
proof -
  obtain b where b: "base c = Some b"
    using assms(1) external_base[of c] by (cases "base c") auto
  have "find (\<lambda>g. fname g = fname f) (rev (own_fields c)) = Some f"
    using find_distinct[of "rev (own_fields c)" f] distinct_own_fields[of c] assms(2)
    by (simp add: rev_map[symmetric])
  then have "find (\<lambda>g. fname g = fname f) (fields_of e c) = Some f"
    using assms(1) by (simp add: fields_of_step[OF b] class_fields_def find_merge_fields)
  then show ?thesis using find_in_set by fastforce
qed

section \<open>Facts about construction\<close>

text \<open>The value a field ends up with, if any: what \<open>resolve\<close> computes, without
  the error.\<close>

definition field_value :: "dfield \<Rightarrow> (string \<times> pyval) list \<Rightarrow> pyval option" where
  "field_value f b =
     (case map_of b (fname f) of
        Some v \<Rightarrow> Some v
      | None \<Rightarrow> (case fdefault f of Default d \<Rightarrow> Some d | Required \<Rightarrow> None))"

lemma resolve_value:
  "resolve c f b =
     (case field_value f b of Some v \<Rightarrow> Inr v | None \<Rightarrow> Inl (MissingRequired c (fname f)))"
  by (simp add: resolve_def field_value_def unset_required_def
      split: option.splits fdefault.splits)

lemma field_value_None:
  "field_value f b = None \<longleftrightarrow> fdefault f = Required \<and> fname f \<notin> fst ` set b"
  by (auto simp: field_value_def map_of_eq_None_iff split: option.splits fdefault.splits
      dest: map_of_SomeD intro: rev_image_eqI)

lemma field_value_supplied:
  "distinct (map fst b) \<Longrightarrow> (fname f, v) \<in> set b \<Longrightarrow> field_value f b = Some v"
  by (simp add: field_value_def)

lemma field_value_default:
  "fname f \<notin> fst ` set b \<Longrightarrow> fdefault f = Default d \<Longrightarrow> field_value f b = Some d"
  by (simp add: field_value_def map_of_eq_None_iff[THEN iffD2])

lemma init_attrs_ok:
  "\<forall>f \<in> set fs. field_value f b \<noteq> None \<Longrightarrow>
   init_attrs c fs b = Inr (map (\<lambda>f. (fname f, the (field_value f b))) fs)"
  by (induction fs) (auto simp: resolve_value split: option.splits)

lemma init_attrs_missing:
  "f \<in> set fs \<Longrightarrow> field_value f b = None \<Longrightarrow>
   \<exists>g \<in> set fs. field_value g b = None \<and> init_attrs c fs b = Inl (MissingRequired c (fname g))"
  by (induction fs) (auto simp: resolve_value split: option.splits sum.splits)

lemma init_attrs_only_missing:
  assumes "f \<in> set fs" "field_value f b = None"
    and "\<forall>g \<in> set fs. field_value g b = None \<longrightarrow> fname g = fname f"
  shows "init_attrs c fs b = Inl (MissingRequired c (fname f))"
  using init_attrs_missing[OF assms(1,2), of c] assms(3) by auto

lemma map_of_attrs:
  "map_of (map (\<lambda>f. (fname f, the (field_value f b))) fs) k =
     (case find (\<lambda>g. fname g = k) fs of
        None \<Rightarrow> None
      | Some f \<Rightarrow> Some (the (field_value f b)))"
  by (induction fs) auto

lemma bind_args_Inr:
  "bind_args names args kw = Inr b \<Longrightarrow>
     b = zip names args @ kw \<and> distinct (map fst b) \<and> fst ` set b \<subseteq> set names"
  by (auto simp: bind_args_def list_all_iff split: if_splits dest!: set_zip_leftD)

lemma construct_bound:
  "bind_args (field_names e c) args kw = Inr b \<Longrightarrow>
   construct e c args kw =
     (case init_attrs c (fields_of e c) b of
        Inl err \<Rightarrow> Inl err
      | Inr attrs \<Rightarrow> Inr (PNode c attrs))"
  by (simp add: construct_def)

lemma construct_missing:
  assumes "bind_args (field_names e c) args kw = Inr b"
    and "f \<in> set (fields_of e c)" "fdefault f = Required" "fname f \<notin> fst ` set b"
    and "\<forall>g \<in> set (fields_of e c).
           fdefault g = Required \<longrightarrow> fname g \<noteq> fname f \<longrightarrow> fname g \<in> fst ` set b"
  shows "construct e c args kw = Inl (MissingRequired c (fname f))"
proof -
  have "init_attrs c (fields_of e c) b = Inl (MissingRequired c (fname f))"
    using assms(2-5) by (intro init_attrs_only_missing) (auto simp: field_value_None)
  then show ?thesis by (simp add: construct_bound[OF assms(1)])
qed

lemma construct_missing_some:
  assumes "bind_args (field_names e c) args kw = Inr b"
    and "f \<in> set (fields_of e c)" "fdefault f = Required" "fname f \<notin> fst ` set b"
  shows "\<exists>g \<in> set (fields_of e c). fdefault g = Required \<and> fname g \<notin> fst ` set b \<and>
           construct e c args kw = Inl (MissingRequired c (fname g))"
proof -
  have "field_value f b = None" using assms(3,4) by (simp add: field_value_None)
  from init_attrs_missing[OF assms(2) this, of c]
  show ?thesis by (auto simp: construct_bound[OF assms(1)] field_value_None)
qed

lemma construct_ok:
  assumes "bind_args (field_names e c) args kw = Inr b"
    and "\<forall>f \<in> set (fields_of e c). fdefault f = Required \<longrightarrow> fname f \<in> fst ` set b"
  shows "construct e c args kw =
           Inr (PNode c (map (\<lambda>f. (fname f, the (field_value f b))) (fields_of e c)))"
proof -
  have "\<forall>f \<in> set (fields_of e c). field_value f b \<noteq> None"
    using assms(2) by (auto simp: field_value_None)
  then show ?thesis by (simp add: construct_bound[OF assms(1)] init_attrs_ok)
qed

lemma getattr_built:
  "py_getattr (PNode c (map (\<lambda>f. (fname f, the (field_value f b))) fs)) k =
     (case find (\<lambda>g. fname g = k) fs of
        None \<Rightarrow> Inl AttributeError
      | Some f \<Rightarrow> Inr (the (field_value f b)))"
  by (simp add: map_of_attrs split: option.splits)

lemma find_by_name:
  "k \<in> fname ` set fs \<Longrightarrow> \<exists>f. find (\<lambda>g. fname g = k) fs = Some f \<and> fname f = k \<and> f \<in> set fs"
  by (induction fs) auto

lemma getattr_supplied:
  assumes "distinct (map fst b)" "(k, v) \<in> set b" "k \<in> fname ` set fs"
  shows "py_getattr (PNode c (map (\<lambda>f. (fname f, the (field_value f b))) fs)) k = Inr v"
proof -
  obtain f where f: "find (\<lambda>g. fname g = k) fs = Some f" "fname f = k"
    using find_by_name[OF assms(3)] by blast
  have "field_value f b = Some v" using assms(1,2) f(2) by (simp add: field_value_supplied)
  then show ?thesis unfolding getattr_built by (simp add: f(1))
qed

lemma getattr_default:
  assumes "distinct (map fname fs)" "f \<in> set fs" "fname f \<notin> fst ` set b" "fdefault f = Default d"
  shows "py_getattr (PNode c (map (\<lambda>f. (fname f, the (field_value f b))) fs)) (fname f) = Inr d"
  using assms unfolding getattr_built by (simp add: find_distinct field_value_default)

lemma construct_attributes:
  assumes "bind_args (field_names e c) args kw = Inr b"
    and "\<forall>f \<in> set (fields_of e c). fdefault f = Required \<longrightarrow> fname f \<in> fst ` set b"
  shows "\<exists>attrs. construct e c args kw = Inr (PNode c attrs) \<and>
           map fst attrs = field_names e c \<and>
           (\<forall>k v. (k, v) \<in> set b \<longrightarrow> py_getattr (PNode c attrs) k = Inr v) \<and>
           (\<forall>f \<in> set (fields_of e c). fname f \<notin> fst ` set b \<longrightarrow>
              (\<exists>d. fdefault f = Default d \<and> py_getattr (PNode c attrs) (fname f) = Inr d))"
proof -
  let ?attrs = "map (\<lambda>f. (fname f, the (field_value f b))) (fields_of e c)"
  have bd: "distinct (map fst b)" and sub: "fst ` set b \<subseteq> set (field_names e c)"
    using bind_args_Inr[OF assms(1)] by blast+
  have 1: "construct e c args kw = Inr (PNode c ?attrs)" by (rule construct_ok[OF assms])
  have 2: "map fst ?attrs = field_names e c" by (simp add: field_names_def comp_def)
  have 3: "py_getattr (PNode c ?attrs) k = Inr v" if "(k, v) \<in> set b" for k v
  proof -
    have "k \<in> fst ` set b" using that by force
    then have "k \<in> fname ` set (fields_of e c)"
      using sub by (auto simp: field_names_def)
    then show ?thesis using bd that by (intro getattr_supplied)
  qed
  have 4: "\<exists>d. fdefault f = Default d \<and> py_getattr (PNode c ?attrs) (fname f) = Inr d"
    if fin: "f \<in> set (fields_of e c)" and fno: "fname f \<notin> fst ` set b" for f
  proof -
    obtain d where d: "fdefault f = Default d"
      using assms(2) fin fno by (cases "fdefault f") auto
    have "distinct (map fname (fields_of e c))"
      using distinct_field_names[of e c] by (simp add: field_names_def)
    from getattr_default[OF this fin fno d] d show ?thesis by blast
  qed
  show ?thesis using 1 2 3 4 by blast
qed

section \<open>An environment to run the model in\<close>

text \<open>
  Modelled from the spec: the attributes of the imported bases are not in the
  sources. In this environment \<^verbatim>\<open>AstLiteral\<close> has the required attribute
  \<^verbatim>\<open>value\<close> (the spec builds \<^verbatim>\<open>MacroArgument(value="n")\<close>); the source span and
  metadata that every node inherits are "out of scope" in the spec and are left
  out, as the spec's own examples build nodes without them. Objects of
  referenced classes are equal only to themselves, and the hashes are simple
  functions chosen for evaluation.
\<close>

definition sample_env :: env where
  "sample_env = \<lparr>
     base_fields = (\<lambda>c. if c = AstLiteral then [required_field ''value'' TStr] else []),
     obj_eq = (\<lambda>x y. False),
     obj_hash = (\<lambda>x. Inr (int (snd x))),
     children_hash = (\<lambda>xs. Inr (int (length xs))),
     none_hash = 0,
     int_hash = (\<lambda>i. i),
     str_hash = (\<lambda>s. int (length s)),
     tuple_hash = sum_list \<rparr>"

section \<open>Facts about particular classes\<close>

lemma merge_fields_Nil [simp]: "merge_fields acc [] = acc"
  by (simp add: merge_fields_def)

lemma fields_of_subset:
  "base c = Some b \<Longrightarrow> set (fields_of e c) \<subseteq> set (fields_of e b) \<union> set (own_fields c)"
  using set_merge_fields[of "fields_of e b" "own_fields c"] external_base[of c]
  by (simp add: fields_of_step class_fields_def)

lemma fields_of_AstNode_subset: "set (fields_of e AstNode) \<subseteq> set (base_fields e AstNode)"
  using set_merge_fields[of "[]" "base_fields e AstNode"]
  by (simp add: fields_of_external class_fields_def external_def)

lemma bind_no_args: "bind_args names [] [] = Inr []"
  by (simp add: bind_args_def)

lemma bind_keywords:
  "distinct (map fst kw) \<Longrightarrow> fst ` set kw \<subseteq> set names \<Longrightarrow> bind_args names [] kw = Inr kw"
  by (auto simp: bind_args_def list_all_iff)

lemma identifier_without_value:
  assumes "\<forall>g \<in> set (base_fields e AstNode). fdefault g \<noteq> Required"
  shows "construct e AstIdentifier [] [] = Inl (MissingRequired AstIdentifier ''value'')"
proof -
  let ?f = "required_field ''value'' TStr"
  have f: "?f \<in> set (fields_of e AstIdentifier)"
    by (rule own_field_is_field) (simp_all add: external_def)
  have sub: "set (fields_of e AstIdentifier) \<subseteq> set (base_fields e AstNode) \<union> {?f}"
    using fields_of_subset[of AstIdentifier AstExpression e]
      fields_of_subset[of AstExpression AstNode e] fields_of_AstNode_subset[of e]
    by auto
  have others: "\<forall>g \<in> set (fields_of e AstIdentifier).
      fdefault g = Required \<longrightarrow> fname g \<noteq> fname ?f \<longrightarrow> fname g \<in> fst ` set []"
    using sub assms by auto
  from construct_missing[OF bind_no_args f _ _ others]
  show ?thesis by (simp add: required_field_def)
qed

lemma sample_fields:
  "fields_of sample_env AstExpressionBinary =
     [required_field ''operator'' TStr,
      required_field ''left'' (TCls AstExpression),
      required_field ''right'' (TCls AstExpression)]"
  "fields_of sample_env AstValue = [required_field ''value'' TAny]"
  by (simp_all add: fields_of_def mro.simps[of AstExpressionBinary] mro.simps[of AstValue]
      mro.simps[of AstExpression] mro.simps[of AstNode]
      class_fields_def external_def sample_env_def merge_fields_def required_field_def)

text \<open>
  C1. For every node type, building a node while exactly one required attribute is
  left unset (every other required attribute being supplied, the call being
  well-formed) fails at construction with an error that names the class and the
  attribute; every attribute a class body declares with \<^verbatim>\<open>required_field()\<close> is
  such an attribute; and \<^verbatim>\<open>AstIdentifier()\<close> fails naming \<^verbatim>\<open>value\<close> on
  \<^verbatim>\<open>AstIdentifier\<close> (no attribute of the imported base being required).
\<close>

theorem missing_required_attribute_fails:
  "(\<forall>args kw b f.
      bind_args (field_names e c) args kw = Inr b \<longrightarrow>
      f \<in> set (fields_of e c) \<longrightarrow> fdefault f = Required \<longrightarrow>
      fname f \<notin> fst ` set b \<longrightarrow>
      (\<forall>g \<in> set (fields_of e c).
         fdefault g = Required \<longrightarrow> fname g \<noteq> fname f \<longrightarrow> fname g \<in> fst ` set b) \<longrightarrow>
      construct e c args kw = Inl (MissingRequired c (fname f))) \<and>
   (\<forall>f. \<not> external c \<longrightarrow> f \<in> set (own_fields c) \<longrightarrow> f \<in> set (fields_of e c)) \<and>
   ((\<forall>g \<in> set (base_fields e AstNode). fdefault g \<noteq> Required) \<longrightarrow>
      construct e AstIdentifier [] [] = Inl (MissingRequired AstIdentifier ''value''))"
  using construct_missing[of e c] own_field_is_field[of c _ e] identifier_without_value[of e]
  by blast

theorem missing_required_attribute_fails_witness:
  "construct sample_env AstExpressionBinary []
     [(''operator'', PStr ''+''), (''left'', PNode AstValue [(''value'', PInt 1)])]
     = Inl (MissingRequired AstExpressionBinary ''right'') \<and>
   construct sample_env AstIdentifier [] [] = Inl (MissingRequired AstIdentifier ''value'')"
proof -
  let ?kw = "[(''operator'', PStr ''+''), (''left'', PNode AstValue [(''value'', PInt 1)])]"
  let ?f = "required_field ''right'' (TCls AstExpression)"
  note claim = missing_required_attribute_fails[of sample_env AstExpressionBinary]
  have b: "bind_args (field_names sample_env AstExpressionBinary) [] ?kw = Inr ?kw"
    by (simp add: bind_args_def field_names_def sample_fields required_field_def)
  have "construct sample_env AstExpressionBinary [] ?kw
          = Inl (MissingRequired AstExpressionBinary (fname ?f))"
    using b by (intro claim[THEN conjunct1, rule_format])
      (auto simp: sample_fields required_field_def)
  moreover have "construct sample_env AstIdentifier [] []
          = Inl (MissingRequired AstIdentifier ''value'')"
    by (intro claim[THEN conjunct2, THEN conjunct2, rule_format])
      (simp add: sample_env_def)
  ultimately show ?thesis by (simp add: required_field_def)
qed

section \<open>Construction with every required attribute supplied\<close>

lemma fields_below_AstNode:
  "base c = Some AstNode \<Longrightarrow>
     set (fields_of e c) \<subseteq> set (base_fields e AstNode) \<union> set (own_fields c)"
  using fields_of_subset[of c AstNode e] fields_of_AstNode_subset[of e] by auto

lemma bind_args_ok:
  assumes "length args \<le> length names"
    and "distinct (map fst (zip names args @ kw))"
    and "fst ` set kw \<subseteq> set names"
  shows "bind_args names args kw = Inr (zip names args @ kw)"
proof -
  have "list_all (\<lambda>k. k \<in> set names) (map fst kw)"
    using assms(3) by (auto simp: list_all_iff)
  then show ?thesis using assms(1,2) by (simp add: bind_args_def)
qed

text \<open>The attributes that a class body of the module declares with a default.\<close>

lemma own_default_listed:
  assumes "\<not> external c" "f \<in> set (own_fields c)" "fdefault f = Default d"
  shows "(c, fname f, d) \<in> set
     [(AstSlice, ''start'', PNone), (AstSlice, ''stop'', PNone), (AstSlice, ''step'', PNone),
      (AstTargetIdentifier, ''rebind'', PBool False),
      (AstFunctionSignatureArgument, ''default'', PNone),
      (AstFunctionSignature, ''decorators'', PChildren []),
      (AstMacroMatchArgument, ''match_argument_properties'', PNone),
      (AstInterpolation, ''prefix'', PNone), (AstInterpolation, ''unpack'', PNone)]"
  using assms by (cases c) (auto simp: external_def required_field_def default_field_def)

lemma construct_call:
  assumes "length args \<le> length (field_names e c)"
    and "distinct (map fst (zip (field_names e c) args @ kw))"
    and "fst ` set kw \<subseteq> set (field_names e c)"
    and "\<forall>f \<in> set (fields_of e c).
           fdefault f = Required \<longrightarrow> fname f \<in> fst ` set (zip (field_names e c) args @ kw)"
  shows "\<exists>attrs. construct e c args kw = Inr (PNode c attrs) \<and>
           map fst attrs = field_names e c \<and>
           (\<forall>i < length args.
              py_getattr (PNode c attrs) (field_names e c ! i) = Inr (args ! i)) \<and>
           (\<forall>k v. (k, v) \<in> set kw \<longrightarrow> py_getattr (PNode c attrs) k = Inr v) \<and>
           (\<forall>f \<in> set (fields_of e c).
              fname f \<notin> fst ` set (zip (field_names e c) args @ kw) \<longrightarrow>
              (\<exists>d. fdefault f = Default d \<and> py_getattr (PNode c attrs) (fname f) = Inr d)) \<and>
           (\<forall>f \<in> set (own_fields c). \<not> external c \<longrightarrow>
              fname f \<notin> fst ` set (zip (field_names e c) args @ kw) \<longrightarrow>
              (\<exists>d. (c, fname f, d) \<in> set
                 [(AstSlice, ''start'', PNone), (AstSlice, ''stop'', PNone),
                  (AstSlice, ''step'', PNone),
                  (AstTargetIdentifier, ''rebind'', PBool False),
                  (AstFunctionSignatureArgument, ''default'', PNone),
                  (AstFunctionSignature, ''decorators'', PChildren []),
                  (AstMacroMatchArgument, ''match_argument_properties'', PNone),
                  (AstInterpolation, ''prefix'', PNone), (AstInterpolation, ''unpack'', PNone)] \<and>
                 py_getattr (PNode c attrs) (fname f) = Inr d))"
proof -
  let ?b = "zip (field_names e c) args @ kw"
  have b: "bind_args (field_names e c) args kw = Inr ?b"
    using assms(1-3) by (rule bind_args_ok)
  from construct_attributes[OF b assms(4)] obtain attrs where
    c: "construct e c args kw = Inr (PNode c attrs)" "map fst attrs = field_names e c" and
    s: "\<And>k v. (k, v) \<in> set ?b \<Longrightarrow> py_getattr (PNode c attrs) k = Inr v" and
    d: "\<And>f. f \<in> set (fields_of e c) \<Longrightarrow> fname f \<notin> fst ` set ?b \<Longrightarrow>
          \<exists>d. fdefault f = Default d \<and> py_getattr (PNode c attrs) (fname f) = Inr d"
    by blast
  have pos: "py_getattr (PNode c attrs) (field_names e c ! i) = Inr (args ! i)"
    if "i < length args" for i
  proof -
    have "(field_names e c ! i, args ! i) \<in> set (zip (field_names e c) args)"
      using that assms(1) by (auto simp: set_zip)
    then show ?thesis by (intro s) simp
  qed
  have key: "py_getattr (PNode c attrs) k = Inr v" if "(k, v) \<in> set kw" for k v
    using that by (intro s) simp
  have own: "\<exists>d. (c, fname f, d) \<in> set
                 [(AstSlice, ''start'', PNone), (AstSlice, ''stop'', PNone),
                  (AstSlice, ''step'', PNone),
                  (AstTargetIdentifier, ''rebind'', PBool False),
                  (AstFunctionSignatureArgument, ''default'', PNone),
                  (AstFunctionSignature, ''decorators'', PChildren []),
                  (AstMacroMatchArgument, ''match_argument_properties'', PNone),
                  (AstInterpolation, ''prefix'', PNone), (AstInterpolation, ''unpack'', PNone)] \<and>
                 py_getattr (PNode c attrs) (fname f) = Inr d"
    if f: "f \<in> set (own_fields c)" and ext: "\<not> external c" and un: "fname f \<notin> fst ` set ?b" for f
  proof -
    have "f \<in> set (fields_of e c)" using ext f by (rule own_field_is_field)
    from d[OF this un] obtain d where
      dd: "fdefault f = Default d" "py_getattr (PNode c attrs) (fname f) = Inr d" by blast
    from own_default_listed[OF ext f dd(1)] dd(2) show ?thesis by blast
  qed
  show ?thesis using c pos key d own by blast
qed

lemma slice_without_arguments:
  assumes "\<forall>g \<in> set (base_fields e AstNode). fdefault g \<noteq> Required"
  shows "\<exists>attrs. construct e AstSlice [] [] = Inr (PNode AstSlice attrs) \<and>
           py_getattr (PNode AstSlice attrs) ''start'' = Inr PNone \<and>
           py_getattr (PNode AstSlice attrs) ''stop'' = Inr PNone \<and>
           py_getattr (PNode AstSlice attrs) ''step'' = Inr PNone"
proof -
  let ?t = "TOptional (TCls AstExpression)"
  have req: "\<forall>f \<in> set (fields_of e AstSlice). fdefault f = Required \<longrightarrow> fname f \<in> fst ` set []"
    using fields_below_AstNode[of AstSlice e] assms by (auto simp: default_field_def)
  from construct_attributes[OF bind_no_args req] obtain attrs where
    c: "construct e AstSlice [] [] = Inr (PNode AstSlice attrs)" and
    d: "\<And>f. f \<in> set (fields_of e AstSlice) \<Longrightarrow>
          \<exists>d. fdefault f = Default d \<and> py_getattr (PNode AstSlice attrs) (fname f) = Inr d"
    by auto
  have own: "default_field n ?t PNone \<in> set (fields_of e AstSlice)"
    if "n \<in> {''start'', ''stop'', ''step''}" for n
    using that by (intro own_field_is_field) (auto simp: external_def)
  have "py_getattr (PNode AstSlice attrs) n = Inr PNone"
    if "n \<in> {''start'', ''stop'', ''step''}" for n
    using d[OF own[OF that]] by (simp add: default_field_def)
  then show ?thesis using c by simp
qed

text \<open>
  C8. For every node type and every call that Python can bind (no more positional
  arguments than attributes, no attribute given twice, no unknown keyword) and
  that supplies every required attribute, construction succeeds; the node has
  exactly the class's attributes; every positional and every keyword argument is
  read back unchanged (a sequence with its order); every attribute left
  unsupplied reads as its declared default, and for the attributes declared in
  the module that default is the documented one: \<^verbatim>\<open>None\<close> for \<^verbatim>\<open>AstSlice.start\<close>,
  \<^verbatim>\<open>stop\<close>, \<^verbatim>\<open>step\<close>, \<^verbatim>\<open>AstFunctionSignatureArgument.default\<close>,
  \<^verbatim>\<open>AstMacroMatchArgument.match_argument_properties\<close>, \<^verbatim>\<open>AstInterpolation.prefix\<close>
  and \<^verbatim>\<open>unpack\<close>, \<^verbatim>\<open>False\<close> for \<^verbatim>\<open>AstTargetIdentifier.rebind\<close>, the empty
  \<^verbatim>\<open>AstChildren()\<close> for \<^verbatim>\<open>AstFunctionSignature.decorators\<close>. In particular
  \<^verbatim>\<open>AstSlice()\<close> is a node whose \<^verbatim>\<open>start\<close>, \<^verbatim>\<open>stop\<close> and \<^verbatim>\<open>step\<close> are all \<^verbatim>\<open>None\<close>
  (no attribute of the imported base being required).
\<close>

theorem construct_with_required_attributes:
  "(\<forall>args kw.
      length args \<le> length (field_names e c) \<longrightarrow>
      distinct (map fst (zip (field_names e c) args @ kw)) \<longrightarrow>
      fst ` set kw \<subseteq> set (field_names e c) \<longrightarrow>
      (\<forall>f \<in> set (fields_of e c).
         fdefault f = Required \<longrightarrow> fname f \<in> fst ` set (zip (field_names e c) args @ kw)) \<longrightarrow>
      (\<exists>attrs. construct e c args kw = Inr (PNode c attrs) \<and>
         map fst attrs = field_names e c \<and>
         (\<forall>i < length args.
            py_getattr (PNode c attrs) (field_names e c ! i) = Inr (args ! i)) \<and>
         (\<forall>k v. (k, v) \<in> set kw \<longrightarrow> py_getattr (PNode c attrs) k = Inr v) \<and>
         (\<forall>f \<in> set (fields_of e c).
            fname f \<notin> fst ` set (zip (field_names e c) args @ kw) \<longrightarrow>
            (\<exists>d. fdefault f = Default d \<and> py_getattr (PNode c attrs) (fname f) = Inr d)) \<and>
         (\<forall>f \<in> set (own_fields c). \<not> external c \<longrightarrow>
            fname f \<notin> fst ` set (zip (field_names e c) args @ kw) \<longrightarrow>
            (\<exists>d. (c, fname f, d) \<in> set
               [(AstSlice, ''start'', PNone), (AstSlice, ''stop'', PNone),
                (AstSlice, ''step'', PNone),
                (AstTargetIdentifier, ''rebind'', PBool False),
                (AstFunctionSignatureArgument, ''default'', PNone),
                (AstFunctionSignature, ''decorators'', PChildren []),
                (AstMacroMatchArgument, ''match_argument_properties'', PNone),
                (AstInterpolation, ''prefix'', PNone), (AstInterpolation, ''unpack'', PNone)] \<and>
               py_getattr (PNode c attrs) (fname f) = Inr d)))) \<and>
   (\<forall>f. \<not> external c \<longrightarrow> f \<in> set (own_fields c) \<longrightarrow> f \<in> set (fields_of e c)) \<and>
   ((\<forall>g \<in> set (base_fields e AstNode). fdefault g \<noteq> Required) \<longrightarrow>
      (\<exists>attrs. construct e AstSlice [] [] = Inr (PNode AstSlice attrs) \<and>
         py_getattr (PNode AstSlice attrs) ''start'' = Inr PNone \<and>
         py_getattr (PNode AstSlice attrs) ''stop'' = Inr PNone \<and>
         py_getattr (PNode AstSlice attrs) ''step'' = Inr PNone))"
  using construct_call[of _ e c] own_field_is_field[of c _ e] slice_without_arguments[of e]
  by blast

theorem construct_with_required_attributes_witness:
  "(\<exists>attrs.
      construct sample_env AstAssignment []
        [(''operator'', PStr ''=''),
         (''target'', PNode AstTargetIdentifier [(''value'', PStr ''x''), (''rebind'', PBool False)]),
         (''value'', PNode AstValue [(''value'', PInt 1)])]
        = Inr (PNode AstAssignment attrs) \<and>
      map fst attrs = [''operator'', ''target'', ''value''] \<and>
      py_getattr (PNode AstAssignment attrs) ''target''
        = Inr (PNode AstTargetIdentifier [(''value'', PStr ''x''), (''rebind'', PBool False)]) \<and>
      py_getattr (PNode AstAssignment attrs) ''value''
        = Inr (PNode AstValue [(''value'', PInt 1)])) \<and>
   (\<exists>attrs.
      construct sample_env AstInterpolation []
        [(''converter'', PStr ''str''), (''value'', PNode AstIdentifier [(''value'', PStr ''x'')])]
        = Inr (PNode AstInterpolation attrs) \<and>
      py_getattr (PNode AstInterpolation attrs) ''prefix'' = Inr PNone \<and>
      py_getattr (PNode AstInterpolation attrs) ''unpack'' = Inr PNone \<and>
      py_getattr (PNode AstInterpolation attrs) ''converter'' = Inr (PStr ''str'')) \<and>
   (\<exists>attrs. construct sample_env AstSlice [] [] = Inr (PNode AstSlice attrs) \<and>
      py_getattr (PNode AstSlice attrs) ''start'' = Inr PNone \<and>
      py_getattr (PNode AstSlice attrs) ''stop'' = Inr PNone \<and>
      py_getattr (PNode AstSlice attrs) ''step'' = Inr PNone)"
proof -
  let ?t = "PNode AstTargetIdentifier [(''value'', PStr ''x''), (''rebind'', PBool False)]"
  let ?v = "PNode AstValue [(''value'', PInt 1)]"
  let ?kw = "[(''operator'', PStr ''=''), (''target'', ?t), (''value'', ?v)]"
  let ?kw' = "[(''converter'', PStr ''str''),
               (''value'', PNode AstIdentifier [(''value'', PStr ''x'')])]"
  have fs: "fields_of sample_env AstAssignment =
      [required_field ''operator'' TStr,
       required_field ''target'' (TCls AstTarget),
       required_field ''value'' (TCls AstExpression)]"
    by code_simp
  have fs': "fields_of sample_env AstInterpolation = own_fields AstInterpolation"
    by code_simp
  have a: "length ([] :: pyval list) \<le> length (field_names sample_env AstAssignment)"
    "distinct (map fst (zip (field_names sample_env AstAssignment) [] @ ?kw))"
    "fst ` set ?kw \<subseteq> set (field_names sample_env AstAssignment)"
    "\<forall>f \<in> set (fields_of sample_env AstAssignment). fdefault f = Required \<longrightarrow>
       fname f \<in> fst ` set (zip (field_names sample_env AstAssignment) [] @ ?kw)"
    by (simp_all add: field_names_def fs required_field_def)
  from construct_with_required_attributes[of sample_env AstAssignment, THEN conjunct1,
      THEN spec, THEN spec, THEN mp, THEN mp, THEN mp, THEN mp, OF a]
  have 1: "\<exists>attrs. construct sample_env AstAssignment [] ?kw = Inr (PNode AstAssignment attrs) \<and>
      map fst attrs = [''operator'', ''target'', ''value''] \<and>
      py_getattr (PNode AstAssignment attrs) ''target'' = Inr ?t \<and>
      py_getattr (PNode AstAssignment attrs) ''value'' = Inr ?v"
    by (auto simp: field_names_def fs required_field_def)
  have i: "length ([] :: pyval list) \<le> length (field_names sample_env AstInterpolation)"
    "distinct (map fst (zip (field_names sample_env AstInterpolation) [] @ ?kw'))"
    "fst ` set ?kw' \<subseteq> set (field_names sample_env AstInterpolation)"
    "\<forall>f \<in> set (fields_of sample_env AstInterpolation). fdefault f = Required \<longrightarrow>
       fname f \<in> fst ` set (zip (field_names sample_env AstInterpolation) [] @ ?kw')"
    by (simp_all add: field_names_def fs' required_field_def default_field_def)
  from construct_with_required_attributes[of sample_env AstInterpolation, THEN conjunct1,
      THEN spec, THEN spec, THEN mp, THEN mp, THEN mp, THEN mp, OF i]
  obtain attrs where
    c: "construct sample_env AstInterpolation [] ?kw' = Inr (PNode AstInterpolation attrs)" and
    k: "\<And>k v. (k, v) \<in> set ?kw' \<Longrightarrow> py_getattr (PNode AstInterpolation attrs) k = Inr v" and
    d: "\<And>f. f \<in> set (own_fields AstInterpolation) \<Longrightarrow> \<not> external AstInterpolation \<Longrightarrow>
          fname f \<notin> fst ` set (zip (field_names sample_env AstInterpolation) [] @ ?kw') \<Longrightarrow>
          \<exists>d. (AstInterpolation, fname f, d) \<in> set
               [(AstSlice, ''start'', PNone), (AstSlice, ''stop'', PNone),
                (AstSlice, ''step'', PNone),
                (AstTargetIdentifier, ''rebind'', PBool False),
                (AstFunctionSignatureArgument, ''default'', PNone),
                (AstFunctionSignature, ''decorators'', PChildren []),
                (AstMacroMatchArgument, ''match_argument_properties'', PNone),
                (AstInterpolation, ''prefix'', PNone), (AstInterpolation, ''unpack'', PNone)] \<and>
               py_getattr (PNode AstInterpolation attrs) (fname f) = Inr d"
    by blast
  have "py_getattr (PNode AstInterpolation attrs) ''prefix'' = Inr PNone"
    using d[of "default_field ''prefix'' (TOptional TStr) PNone"]
    by (auto simp: default_field_def external_def)
  moreover have "py_getattr (PNode AstInterpolation attrs) ''unpack'' = Inr PNone"
    using d[of "default_field ''unpack'' (TOptional TStr) PNone"]
    by (auto simp: default_field_def external_def)
  moreover have "py_getattr (PNode AstInterpolation attrs) ''converter'' = Inr (PStr ''str'')"
    by (rule k) simp
  ultimately have 2: "\<exists>attrs. construct sample_env AstInterpolation [] ?kw'
        = Inr (PNode AstInterpolation attrs) \<and>
      py_getattr (PNode AstInterpolation attrs) ''prefix'' = Inr PNone \<and>
      py_getattr (PNode AstInterpolation attrs) ''unpack'' = Inr PNone \<and>
      py_getattr (PNode AstInterpolation attrs) ''converter'' = Inr (PStr ''str'')"
    using c by blast
  have "\<forall>g \<in> set (base_fields sample_env AstNode). fdefault g \<noteq> Required"
    by (simp add: sample_env_def)
  from construct_with_required_attributes[of sample_env AstSlice, THEN conjunct2,
      THEN conjunct2, THEN mp, OF this] 1 2
  show ?thesis by blast
qed

section \<open>The function signature\<close>

lemma signature_fields:
  "set (fields_of e AstFunctionSignature) \<subseteq>
     set (base_fields e AstNode) \<union> set (own_fields AstFunctionSignature)"
  by (rule fields_below_AstNode) simp

lemma signature_field_cases:
  assumes "g \<in> set (fields_of e AstFunctionSignature)"
  shows "g \<in> set (base_fields e AstNode) \<or> fdefault g \<noteq> Required \<or>
         (fdefault g = Required \<and> (fname g = ''name'' \<or> fname g = ''arguments''))"
proof -
  have "g \<in> set (base_fields e AstNode) \<union> set (own_fields AstFunctionSignature)"
    using signature_fields[of e] assms by blast
  then show ?thesis by (auto simp: required_field_def default_field_def)
qed

lemma signature_own:
  "default_field ''decorators'' (TChildren (TCls AstDecorator)) (PChildren [])
     \<in> set (fields_of e AstFunctionSignature)"
  "required_field ''name'' TStr \<in> set (fields_of e AstFunctionSignature)"
  "required_field ''arguments'' (TChildren (TCls AstFunctionSignatureArgument))
     \<in> set (fields_of e AstFunctionSignature)"
  by (rule own_field_is_field; simp add: external_def)+

lemma signature_ok:
  assumes b: "bind_args (field_names e AstFunctionSignature) args kw = Inr b"
    and inh: "\<forall>g \<in> set (base_fields e AstNode). fdefault g = Required \<longrightarrow> fname g \<in> fst ` set b"
    and sup: "''name'' \<in> fst ` set b" "''arguments'' \<in> fst ` set b"
    and dec: "''decorators'' \<notin> fst ` set b"
  shows "\<exists>attrs. construct e AstFunctionSignature args kw = Inr (PNode AstFunctionSignature attrs) \<and>
           py_getattr (PNode AstFunctionSignature attrs) ''decorators'' = Inr (PChildren []) \<and>
           (\<forall>v. (''name'', v) \<in> set b \<longrightarrow>
              py_getattr (PNode AstFunctionSignature attrs) ''name'' = Inr v) \<and>
           (\<forall>v. (''arguments'', v) \<in> set b \<longrightarrow>
              py_getattr (PNode AstFunctionSignature attrs) ''arguments'' = Inr v)"
proof -
  have req: "\<forall>f \<in> set (fields_of e AstFunctionSignature).
               fdefault f = Required \<longrightarrow> fname f \<in> fst ` set b"
    using signature_field_cases[of _ e] inh sup by metis
  from construct_attributes[OF b req] obtain attrs where
    c: "construct e AstFunctionSignature args kw = Inr (PNode AstFunctionSignature attrs)" and
    s: "\<And>k v. (k, v) \<in> set b \<Longrightarrow> py_getattr (PNode AstFunctionSignature attrs) k = Inr v" and
    d: "\<And>f. f \<in> set (fields_of e AstFunctionSignature) \<Longrightarrow> fname f \<notin> fst ` set b \<Longrightarrow>
          \<exists>d. fdefault f = Default d \<and>
              py_getattr (PNode AstFunctionSignature attrs) (fname f) = Inr d"
    by blast
  have "py_getattr (PNode AstFunctionSignature attrs) ''decorators'' = Inr (PChildren [])"
    using d[OF signature_own(1)] dec by (simp add: default_field_def)
  then show ?thesis using c s by blast
qed

lemma signature_missing:
  assumes b: "bind_args (field_names e AstFunctionSignature) args kw = Inr b"
    and inh: "\<forall>g \<in> set (base_fields e AstNode). fdefault g = Required \<longrightarrow> fname g \<in> fst ` set b"
    and n: "n = ''name'' \<and> m = ''arguments'' \<or> n = ''arguments'' \<and> m = ''name''"
    and mis: "n \<notin> fst ` set b" and sup: "m \<in> fst ` set b"
  shows "construct e AstFunctionSignature args kw = Inl (MissingRequired AstFunctionSignature n)"
proof -
  obtain f where f: "f \<in> set (fields_of e AstFunctionSignature)" "fdefault f = Required"
      "fname f = n"
    using n signature_own(2,3)[of e] by (auto simp: required_field_def)
  have others: "\<forall>g \<in> set (fields_of e AstFunctionSignature).
      fdefault g = Required \<longrightarrow> fname g \<noteq> fname f \<longrightarrow> fname g \<in> fst ` set b"
    using signature_field_cases[of _ e] inh n sup f(3) by metis
  from construct_missing[OF b f(1,2) _ others] mis f(3) show ?thesis by simp
qed

lemma signature_names:
  "''name'' \<in> set (field_names e AstFunctionSignature)"
  "''arguments'' \<in> set (field_names e AstFunctionSignature)"
  using signature_own(2,3)[of e] by (force simp: field_names_def required_field_def)+

lemma signature_keyword_call:
  assumes "\<forall>g \<in> set (base_fields e AstNode). fdefault g \<noteq> Required"
  shows "\<exists>attrs. construct e AstFunctionSignature [] [(''name'', n), (''arguments'', a)]
                    = Inr (PNode AstFunctionSignature attrs) \<and>
           py_getattr (PNode AstFunctionSignature attrs) ''decorators'' = Inr (PChildren []) \<and>
           py_getattr (PNode AstFunctionSignature attrs) ''name'' = Inr n \<and>
           py_getattr (PNode AstFunctionSignature attrs) ''arguments'' = Inr a"
proof -
  let ?kw = "[(''name'', n), (''arguments'', a)]"
  have b: "bind_args (field_names e AstFunctionSignature) [] ?kw = Inr ?kw"
    using signature_names[of e] by (intro bind_keywords) auto
  from signature_ok[OF b] assms show ?thesis by fastforce
qed

lemma signature_omission:
  assumes "''name'' \<notin> fst ` set (zip (field_names e AstFunctionSignature) args @ kw) \<or>
           ''arguments'' \<notin> fst ` set (zip (field_names e AstFunctionSignature) args @ kw)"
  shows "construct e AstFunctionSignature args kw = Inl TypeError \<or>
         (\<exists>g. g \<notin> fst ` set (zip (field_names e AstFunctionSignature) args @ kw) \<and>
              construct e AstFunctionSignature args kw
                = Inl (MissingRequired AstFunctionSignature g))"
proof (cases "bind_args (field_names e AstFunctionSignature) args kw")
  case (Inl err)
  then have "err = TypeError" by (auto simp: bind_args_def split: if_splits)
  then show ?thesis using Inl by (simp add: construct_def)
next
  case (Inr b)
  then have b: "b = zip (field_names e AstFunctionSignature) args @ kw"
    using bind_args_Inr by blast
  obtain f where f: "f \<in> set (fields_of e AstFunctionSignature)" "fdefault f = Required"
      "fname f \<notin> fst ` set b"
    using assms signature_own(2,3)[of e] unfolding b[symmetric]
    by (auto simp: required_field_def)
  from construct_missing_some[OF Inr f] show ?thesis unfolding b by blast
qed

lemma signature_omission_named:
  assumes b: "bind_args (field_names e AstFunctionSignature) args kw = Inr b"
    and inh: "\<forall>g \<in> set (base_fields e AstNode). fdefault g = Required \<longrightarrow> fname g \<in> fst ` set b"
    and om: "''name'' \<notin> fst ` set b \<or> ''arguments'' \<notin> fst ` set b"
  shows "\<exists>g. (g = ''name'' \<or> g = ''arguments'') \<and> g \<notin> fst ` set b \<and>
           construct e AstFunctionSignature args kw
             = Inl (MissingRequired AstFunctionSignature g)"
proof -
  obtain f where f: "f \<in> set (fields_of e AstFunctionSignature)" "fdefault f = Required"
      "fname f \<notin> fst ` set b"
    using om signature_own(2,3)[of e] by (auto simp: required_field_def)
  from construct_missing_some[OF b f] obtain g where
    g: "g \<in> set (fields_of e AstFunctionSignature)" "fdefault g = Required"
       "fname g \<notin> fst ` set b"
       "construct e AstFunctionSignature args kw
          = Inl (MissingRequired AstFunctionSignature (fname g))"
    by blast
  have "fname g = ''name'' \<or> fname g = ''arguments''"
    using signature_field_cases[OF g(1)] g(2,3) inh by blast
  with g(3,4) show ?thesis by blast
qed

text \<open>
  C6. A call of \<^verbatim>\<open>AstFunctionSignature\<close> with the keywords \<^verbatim>\<open>name\<close> and
  \<^verbatim>\<open>arguments\<close> succeeds (no attribute of the imported base being required):
  \<^verbatim>\<open>decorators\<close> is then the empty \<^verbatim>\<open>AstChildren()\<close>, and \<^verbatim>\<open>name\<close> and \<^verbatim>\<open>arguments\<close>
  are the supplied values, an empty sequence included. Every call that leaves
  out \<^verbatim>\<open>name\<close> or leaves out \<^verbatim>\<open>arguments\<close> (or both) fails; when Python can bind
  the call and the attributes the imported base requires are supplied, the error
  names \<^verbatim>\<open>name\<close> or \<^verbatim>\<open>arguments\<close>, one that was left out, on
  \<^verbatim>\<open>AstFunctionSignature\<close>, and it names the one left out when the other is
  supplied.
\<close>

theorem function_signature_construction:
  "(\<forall>n a. (\<forall>g \<in> set (base_fields e AstNode). fdefault g \<noteq> Required) \<longrightarrow>
      (\<exists>attrs. construct e AstFunctionSignature [] [(''name'', n), (''arguments'', a)]
                  = Inr (PNode AstFunctionSignature attrs) \<and>
         py_getattr (PNode AstFunctionSignature attrs) ''decorators'' = Inr (PChildren []) \<and>
         py_getattr (PNode AstFunctionSignature attrs) ''name'' = Inr n \<and>
         py_getattr (PNode AstFunctionSignature attrs) ''arguments'' = Inr a)) \<and>
   (\<forall>args kw.
      ''name'' \<notin> fst ` set (zip (field_names e AstFunctionSignature) args @ kw) \<or>
      ''arguments'' \<notin> fst ` set (zip (field_names e AstFunctionSignature) args @ kw) \<longrightarrow>
      isl (construct e AstFunctionSignature args kw) \<and>
      (construct e AstFunctionSignature args kw = Inl TypeError \<or>
       (\<exists>g. g \<notin> fst ` set (zip (field_names e AstFunctionSignature) args @ kw) \<and>
            construct e AstFunctionSignature args kw
              = Inl (MissingRequired AstFunctionSignature g)))) \<and>
   (\<forall>args kw b.
      bind_args (field_names e AstFunctionSignature) args kw = Inr b \<longrightarrow>
      (\<forall>g \<in> set (base_fields e AstNode). fdefault g = Required \<longrightarrow> fname g \<in> fst ` set b) \<longrightarrow>
        (''name'' \<notin> fst ` set b \<or> ''arguments'' \<notin> fst ` set b \<longrightarrow>
           (\<exists>g. (g = ''name'' \<or> g = ''arguments'') \<and> g \<notin> fst ` set b \<and>
              construct e AstFunctionSignature args kw
                = Inl (MissingRequired AstFunctionSignature g))) \<and>
        (''name'' \<in> fst ` set b \<longrightarrow> ''arguments'' \<in> fst ` set b \<longrightarrow>
         ''decorators'' \<notin> fst ` set b \<longrightarrow>
           (\<exists>attrs. construct e AstFunctionSignature args kw
                       = Inr (PNode AstFunctionSignature attrs) \<and>
              py_getattr (PNode AstFunctionSignature attrs) ''decorators'' = Inr (PChildren []) \<and>
              (\<forall>v. (''name'', v) \<in> set b \<longrightarrow>
                 py_getattr (PNode AstFunctionSignature attrs) ''name'' = Inr v) \<and>
              (\<forall>v. (''arguments'', v) \<in> set b \<longrightarrow>
                 py_getattr (PNode AstFunctionSignature attrs) ''arguments'' = Inr v))) \<and>
        (''name'' \<notin> fst ` set b \<longrightarrow> ''arguments'' \<in> fst ` set b \<longrightarrow>
           construct e AstFunctionSignature args kw
             = Inl (MissingRequired AstFunctionSignature ''name'')) \<and>
        (''arguments'' \<notin> fst ` set b \<longrightarrow> ''name'' \<in> fst ` set b \<longrightarrow>
           construct e AstFunctionSignature args kw
             = Inl (MissingRequired AstFunctionSignature ''arguments'')))"
proof (intro conjI allI impI)
  fix n a :: pyval
  assume "\<forall>g \<in> set (base_fields e AstNode). fdefault g \<noteq> Required"
  then show "\<exists>attrs. construct e AstFunctionSignature [] [(''name'', n), (''arguments'', a)]
                  = Inr (PNode AstFunctionSignature attrs) \<and>
         py_getattr (PNode AstFunctionSignature attrs) ''decorators'' = Inr (PChildren []) \<and>
         py_getattr (PNode AstFunctionSignature attrs) ''name'' = Inr n \<and>
         py_getattr (PNode AstFunctionSignature attrs) ''arguments'' = Inr a"
    by (rule signature_keyword_call)
next
  fix args :: "pyval list" and kw :: "(string \<times> pyval) list"
  assume om: "''name'' \<notin> fst ` set (zip (field_names e AstFunctionSignature) args @ kw) \<or>
      ''arguments'' \<notin> fst ` set (zip (field_names e AstFunctionSignature) args @ kw)"
  from signature_omission[OF om]
  show "isl (construct e AstFunctionSignature args kw)" by auto
  from signature_omission[OF om]
  show "construct e AstFunctionSignature args kw = Inl TypeError \<or>
       (\<exists>g. g \<notin> fst ` set (zip (field_names e AstFunctionSignature) args @ kw) \<and>
            construct e AstFunctionSignature args kw
              = Inl (MissingRequired AstFunctionSignature g))" .
next
  fix args :: "pyval list" and kw b :: "(string \<times> pyval) list"
  assume b: "bind_args (field_names e AstFunctionSignature) args kw = Inr b"
    and inh: "\<forall>g \<in> set (base_fields e AstNode). fdefault g = Required \<longrightarrow> fname g \<in> fst ` set b"
  {
    assume "''name'' \<notin> fst ` set b \<or> ''arguments'' \<notin> fst ` set b"
    from signature_omission_named[OF b inh this]
    show "\<exists>g. (g = ''name'' \<or> g = ''arguments'') \<and> g \<notin> fst ` set b \<and>
              construct e AstFunctionSignature args kw
                = Inl (MissingRequired AstFunctionSignature g)" .
  }
  {
    assume "''name'' \<in> fst ` set b" "''arguments'' \<in> fst ` set b" "''decorators'' \<notin> fst ` set b"
    from signature_ok[OF b inh this]
    show "\<exists>attrs. construct e AstFunctionSignature args kw
                       = Inr (PNode AstFunctionSignature attrs) \<and>
              py_getattr (PNode AstFunctionSignature attrs) ''decorators'' = Inr (PChildren []) \<and>
              (\<forall>v. (''name'', v) \<in> set b \<longrightarrow>
                 py_getattr (PNode AstFunctionSignature attrs) ''name'' = Inr v) \<and>
              (\<forall>v. (''arguments'', v) \<in> set b \<longrightarrow>
                 py_getattr (PNode AstFunctionSignature attrs) ''arguments'' = Inr v)" .
  }
  {
    assume "''name'' \<notin> fst ` set b" "''arguments'' \<in> fst ` set b"
    then show "construct e AstFunctionSignature args kw
             = Inl (MissingRequired AstFunctionSignature ''name'')"
      using signature_missing[OF b inh, of "''name''" "''arguments''"] by blast
  }
  {
    assume "''arguments'' \<notin> fst ` set b" "''name'' \<in> fst ` set b"
    then show "construct e AstFunctionSignature args kw
             = Inl (MissingRequired AstFunctionSignature ''arguments'')"
      using signature_missing[OF b inh, of "''arguments''" "''name''"] by blast
  }
qed

theorem function_signature_construction_witness:
  "(\<exists>attrs.
      construct sample_env AstFunctionSignature []
          [(''name'', PStr ''f''), (''arguments'', PChildren [])]
        = Inr (PNode AstFunctionSignature attrs) \<and>
      py_getattr (PNode AstFunctionSignature attrs) ''decorators'' = Inr (PChildren []) \<and>
      py_getattr (PNode AstFunctionSignature attrs) ''name'' = Inr (PStr ''f'') \<and>
      py_getattr (PNode AstFunctionSignature attrs) ''arguments'' = Inr (PChildren [])) \<and>
   isl (construct sample_env AstFunctionSignature [] []) \<and>
   construct sample_env AstFunctionSignature [] [(''arguments'', PChildren [])]
     = Inl (MissingRequired AstFunctionSignature ''name'') \<and>
   construct sample_env AstFunctionSignature [] [(''name'', PStr ''f'')]
     = Inl (MissingRequired AstFunctionSignature ''arguments'')"
proof -
  note claim = function_signature_construction[of sample_env]
  have nb: "\<forall>g \<in> set (base_fields sample_env AstNode). fdefault g \<noteq> Required"
    by (simp add: sample_env_def)
  have inh: "\<forall>g \<in> set (base_fields sample_env AstNode).
      fdefault g = Required \<longrightarrow> fname g \<in> fst ` set b" for b :: "(string \<times> pyval) list"
    by (simp add: sample_env_def)
  have b2: "bind_args (field_names sample_env AstFunctionSignature) []
      [(''arguments'', PChildren [])] = Inr [(''arguments'', PChildren [])]"
    by code_simp
  have b3: "bind_args (field_names sample_env AstFunctionSignature) []
      [(''name'', PStr ''f'')] = Inr [(''name'', PStr ''f'')]"
    by code_simp
  from claim[THEN conjunct1, THEN spec, THEN spec, THEN mp, OF nb]
  have 1: "\<exists>attrs.
      construct sample_env AstFunctionSignature []
          [(''name'', PStr ''f''), (''arguments'', PChildren [])]
        = Inr (PNode AstFunctionSignature attrs) \<and>
      py_getattr (PNode AstFunctionSignature attrs) ''decorators'' = Inr (PChildren []) \<and>
      py_getattr (PNode AstFunctionSignature attrs) ''name'' = Inr (PStr ''f'') \<and>
      py_getattr (PNode AstFunctionSignature attrs) ''arguments'' = Inr (PChildren [])" .
  from claim[THEN conjunct2, THEN conjunct1, THEN spec, THEN spec, of "[]" "[]"]
  have 0: "isl (construct sample_env AstFunctionSignature [] [])" by simp
  from claim[THEN conjunct2, THEN conjunct2, THEN spec, THEN spec, THEN spec,
      THEN mp, OF b2, THEN mp, OF inh]
  have 2: "construct sample_env AstFunctionSignature [] [(''arguments'', PChildren [])]
     = Inl (MissingRequired AstFunctionSignature ''name'')"
    by simp
  from claim[THEN conjunct2, THEN conjunct2, THEN spec, THEN spec, THEN spec,
      THEN mp, OF b3, THEN mp, OF inh]
  have 3: "construct sample_env AstFunctionSignature [] [(''name'', PStr ''f'')]
     = Inl (MissingRequired AstFunctionSignature ''arguments'')"
    by simp
  from 0 1 2 3 show ?thesis by blast
qed

section \<open>Which attributes may be left out\<close>

text \<open>The classes declared in the module, in source order.\<close>

definition declared_classes :: "cls list" where
  "declared_classes =
     [AstModuleRoot, AstExpression, AstExpressionBinary, AstExpressionUnary, AstValue,
      AstIdentifier, AstFormatString, AstTuple, AstList, AstDictItem, AstDict, AstSlice,
      AstUnpack, AstKeyword, AstAttribute, AstLookup, AstCall, AstTarget,
      AstTargetIdentifier, AstTargetUnpack, AstTargetAttribute, AstTargetItem,
      AstAssignment, AstDecorator, AstFunctionSignatureArgument, AstFunctionSignature,
      AstDeferredRoot, AstMacroLiteral, AstMacroArgument, AstMacroMatch,
      AstMacroMatchLiteral, AstMacroMatchArgument, AstInterpolation,
      AstImportedIdentifier]"

text \<open>The attributes that a class body declares with a default, with that default.\<close>

definition defaults_of :: "cls \<Rightarrow> (cls \<times> string \<times> pyval) list" where
  "defaults_of c =
     concat (map (\<lambda>f. case fdefault f of Default d \<Rightarrow> [(c, fname f, d)] | Required \<Rightarrow> [])
       (own_fields c))"

definition defaulted_attributes :: "(cls \<times> string \<times> pyval) list" where
  "defaulted_attributes = concat (map defaults_of declared_classes)"

text \<open>The attributes that the spec names as the only ones with an absent state.\<close>

definition claimed_optional :: "(cls \<times> string) list" where
  "claimed_optional =
     [(AstSlice, ''start''), (AstSlice, ''stop''), (AstSlice, ''step''),
      (AstFunctionSignatureArgument, ''default''),
      (AstMacroMatchArgument, ''match_argument_properties''),
      (AstInterpolation, ''prefix''), (AstInterpolation, ''unpack'')]"

lemma declared_not_external: "c \<in> set declared_classes \<longleftrightarrow> \<not> external c"
  by (cases c) (simp_all add: declared_classes_def external_def)

lemma defaulted_attributes_eq:
  "defaulted_attributes =
     [(AstSlice, ''start'', PNone), (AstSlice, ''stop'', PNone), (AstSlice, ''step'', PNone),
      (AstTargetIdentifier, ''rebind'', PBool False),
      (AstFunctionSignatureArgument, ''default'', PNone),
      (AstFunctionSignature, ''decorators'', PChildren []),
      (AstMacroMatchArgument, ''match_argument_properties'', PNone),
      (AstInterpolation, ''prefix'', PNone), (AstInterpolation, ''unpack'', PNone)]"
  by code_simp

lemma required_iff_not_defaulted:
  assumes "\<not> external c" "f \<in> set (own_fields c)"
  shows "fdefault f = Required \<longleftrightarrow> (\<forall>d. (c, fname f, d) \<notin> set defaulted_attributes)"
  using assms
  by (cases c)
    (auto simp: defaulted_attributes_eq external_def required_field_def default_field_def)

lemma default_is_listed:
  assumes "\<not> external c" "f \<in> set (own_fields c)" "fdefault f = Default d"
  shows "(c, fname f, d) \<in> set defaulted_attributes"
  using own_default_listed[OF assms] by (simp only: defaulted_attributes_eq)

lemma listed_default_unique:
  "(c, n, d) \<in> set defaulted_attributes \<Longrightarrow> (c, n, d') \<in> set defaulted_attributes \<Longrightarrow> d' = d"
  by (auto simp: defaulted_attributes_eq)

lemma omitted_default_read_back:
  assumes "bind_args (field_names e c) args kw = Inr b"
    and "\<forall>g \<in> set (fields_of e c). fdefault g = Required \<longrightarrow> fname g \<in> fst ` set b"
    and "\<not> external c" "f \<in> set (own_fields c)" "fdefault f = Default d"
    and "fname f \<notin> fst ` set b"
  shows "\<exists>attrs. construct e c args kw = Inr (PNode c attrs) \<and>
           py_getattr (PNode c attrs) (fname f) = Inr d"
proof -
  have "f \<in> set (fields_of e c)" using assms(3,4) by (rule own_field_is_field)
  with construct_attributes[OF assms(1,2)] assms(5,6) show ?thesis by fastforce
qed

lemma omitted_required_fails:
  assumes "bind_args (field_names e c) args kw = Inr b"
    and "\<not> external c" "f \<in> set (own_fields c)" "fdefault f = Required"
    and "fname f \<notin> fst ` set b"
  shows "\<exists>g. g \<notin> fst ` set b \<and> construct e c args kw = Inl (MissingRequired c g)"
proof -
  have "f \<in> set (fields_of e c)" using assms(2,3) by (rule own_field_is_field)
  from construct_missing_some[OF assms(1) this assms(4,5)] show ?thesis by blast
qed

text \<open>
  C2, as amended. Nine attributes declared in the module carry a default and may
  be left out: the seven the claim names, each with default \<^verbatim>\<open>None\<close>, and also
  \<^verbatim>\<open>AstTargetIdentifier.rebind\<close> (default \<^verbatim>\<open>False\<close>) and
  \<^verbatim>\<open>AstFunctionSignature.decorators\<close> (default the empty \<^verbatim>\<open>AstChildren()\<close>). A
  node built without one of the nine reads that attribute as its default. Every
  other attribute declared in the module is declared with \<^verbatim>\<open>required_field()\<close>,
  and a call that leaves it out fails.
\<close>

theorem attributes_with_default:
  "defaulted_attributes =
     [(AstSlice, ''start'', PNone), (AstSlice, ''stop'', PNone), (AstSlice, ''step'', PNone),
      (AstTargetIdentifier, ''rebind'', PBool False),
      (AstFunctionSignatureArgument, ''default'', PNone),
      (AstFunctionSignature, ''decorators'', PChildren []),
      (AstMacroMatchArgument, ''match_argument_properties'', PNone),
      (AstInterpolation, ''prefix'', PNone), (AstInterpolation, ''unpack'', PNone)] \<and>
   (\<forall>c f. \<not> external c \<longrightarrow> f \<in> set (own_fields c) \<longrightarrow>
      (fdefault f = Required \<longleftrightarrow> (\<forall>d. (c, fname f, d) \<notin> set defaulted_attributes))) \<and>
   (\<forall>e c args kw b f d.
      bind_args (field_names e c) args kw = Inr b \<longrightarrow>
      (\<forall>g \<in> set (fields_of e c). fdefault g = Required \<longrightarrow> fname g \<in> fst ` set b) \<longrightarrow>
      \<not> external c \<longrightarrow> f \<in> set (own_fields c) \<longrightarrow>
      (c, fname f, d) \<in> set defaulted_attributes \<longrightarrow>
      fname f \<notin> fst ` set b \<longrightarrow>
      (\<exists>attrs. construct e c args kw = Inr (PNode c attrs) \<and>
         py_getattr (PNode c attrs) (fname f) = Inr d)) \<and>
   (\<forall>e c args kw b f.
      bind_args (field_names e c) args kw = Inr b \<longrightarrow>
      \<not> external c \<longrightarrow> f \<in> set (own_fields c) \<longrightarrow>
      (\<forall>d. (c, fname f, d) \<notin> set defaulted_attributes) \<longrightarrow>
      fname f \<notin> fst ` set b \<longrightarrow>
      (\<exists>g. g \<notin> fst ` set b \<and> construct e c args kw = Inl (MissingRequired c g)))"
proof (intro conjI allI impI)
  show "defaulted_attributes =
     [(AstSlice, ''start'', PNone), (AstSlice, ''stop'', PNone), (AstSlice, ''step'', PNone),
      (AstTargetIdentifier, ''rebind'', PBool False),
      (AstFunctionSignatureArgument, ''default'', PNone),
      (AstFunctionSignature, ''decorators'', PChildren []),
      (AstMacroMatchArgument, ''match_argument_properties'', PNone),
      (AstInterpolation, ''prefix'', PNone), (AstInterpolation, ''unpack'', PNone)]"
    by (rule defaulted_attributes_eq)
next
  fix c f
  assume "\<not> external c" "f \<in> set (own_fields c)"
  then show "fdefault f = Required \<longleftrightarrow> (\<forall>d. (c, fname f, d) \<notin> set defaulted_attributes)"
    by (rule required_iff_not_defaulted)
next
  fix e c and args :: "pyval list" and kw b :: "(string \<times> pyval) list" and f d
  assume b: "bind_args (field_names e c) args kw = Inr b"
    and req: "\<forall>g \<in> set (fields_of e c). fdefault g = Required \<longrightarrow> fname g \<in> fst ` set b"
    and ext: "\<not> external c" and f: "f \<in> set (own_fields c)"
    and d: "(c, fname f, d) \<in> set defaulted_attributes"
    and un: "fname f \<notin> fst ` set b"
  have "fdefault f \<noteq> Required"
    using required_iff_not_defaulted[OF ext f] d by blast
  then obtain d' where d': "fdefault f = Default d'" by (cases "fdefault f") auto
  have "d' = d" using listed_default_unique[OF d default_is_listed[OF ext f d']] .
  with omitted_default_read_back[OF b req ext f d' un]
  show "\<exists>attrs. construct e c args kw = Inr (PNode c attrs) \<and>
         py_getattr (PNode c attrs) (fname f) = Inr d"
    by simp
next
  fix e c and args :: "pyval list" and kw b :: "(string \<times> pyval) list" and f
  assume b: "bind_args (field_names e c) args kw = Inr b"
    and ext: "\<not> external c" and f: "f \<in> set (own_fields c)"
    and nd: "\<forall>d. (c, fname f, d) \<notin> set defaulted_attributes"
    and un: "fname f \<notin> fst ` set b"
  have "fdefault f = Required" using required_iff_not_defaulted[OF ext f] nd by blast
  from omitted_required_fails[OF b ext f this un]
  show "\<exists>g. g \<notin> fst ` set b \<and> construct e c args kw = Inl (MissingRequired c g)" .
qed

theorem attributes_with_default_witness:
  "\<exists>attrs. construct sample_env AstInterpolation []
       [(''converter'', PStr ''str''), (''value'', PNode AstIdentifier [(''value'', PStr ''x'')])]
       = Inr (PNode AstInterpolation attrs) \<and>
     py_getattr (PNode AstInterpolation attrs) ''prefix'' = Inr PNone"
proof -
  let ?kw = "[(''converter'', PStr ''str''),
              (''value'', PNode AstIdentifier [(''value'', PStr ''x'')])]"
  let ?f = "default_field ''prefix'' (TOptional TStr) PNone"
  have b: "bind_args (field_names sample_env AstInterpolation) [] ?kw = Inr ?kw"
    by code_simp
  have fs: "fields_of sample_env AstInterpolation = own_fields AstInterpolation"
    by code_simp
  have req: "\<forall>g \<in> set (fields_of sample_env AstInterpolation).
      fdefault g = Required \<longrightarrow> fname g \<in> fst ` set ?kw"
    by (simp add: fs required_field_def default_field_def)
  note step = attributes_with_default[THEN conjunct2, THEN conjunct2, THEN conjunct1,
      THEN spec, THEN spec, THEN spec, THEN spec, THEN spec, THEN spec, THEN spec,
      THEN mp, OF b, THEN mp, OF req, of ?f PNone]
  have "\<not> external AstInterpolation" "?f \<in> set (own_fields AstInterpolation)"
    "(AstInterpolation, fname ?f, PNone) \<in> set defaulted_attributes"
    "fname ?f \<notin> fst ` set ?kw"
    by (simp_all add: external_def default_field_def defaulted_attributes_eq)
  with step have "\<exists>attrs. construct sample_env AstInterpolation [] ?kw
        = Inr (PNode AstInterpolation attrs) \<and>
     py_getattr (PNode AstInterpolation attrs) (fname ?f) = Inr PNone"
    by blast
  then show ?thesis by (simp add: default_field_def)
qed

text \<open>The claim as stated fails: \<^verbatim>\<open>rebind\<close> and \<^verbatim>\<open>decorators\<close> are not among the
  seven attributes it names, and leaving them out is no failure.\<close>

theorem more_attributes_may_be_omitted:
  "(AstTargetIdentifier, ''rebind'') \<notin> set claimed_optional \<and>
   construct sample_env AstTargetIdentifier [] [(''value'', PStr ''x'')]
     = Inr (PNode AstTargetIdentifier [(''value'', PStr ''x''), (''rebind'', PBool False)]) \<and>
   (AstFunctionSignature, ''decorators'') \<notin> set claimed_optional \<and>
   construct sample_env AstFunctionSignature []
       [(''name'', PStr ''f''), (''arguments'', PChildren [])]
     = Inr (PNode AstFunctionSignature
         [(''decorators'', PChildren []), (''name'', PStr ''f''),
          (''arguments'', PChildren [])])"
  by code_simp

section \<open>Immutability\<close>

lemma frozen_all: "frozen c"
  by (cases c) simp_all

text \<open>
  C4. For every node type and every attribute name, assigning to the attribute
  and deleting it both fail with \<^verbatim>\<open>FrozenInstanceError\<close>, the node is afterwards
  the node it was, and reading any attribute gives what it gave before. (The
  statement is about the attributes of the node: which object each one refers
  to. The methods of an object held in an attribute, such as the token stream of
  \<^verbatim>\<open>AstDeferredRoot\<close>, are not operations of the node.)
\<close>

theorem nodes_are_immutable:
  "py_setattr (PNode c attrs) n v = (Inl FrozenInstanceError, PNode c attrs) \<and>
   py_delattr (PNode c attrs) n = (Inl FrozenInstanceError, PNode c attrs) \<and>
   py_getattr (snd (py_setattr (PNode c attrs) n v)) k = py_getattr (PNode c attrs) k \<and>
   py_getattr (snd (py_delattr (PNode c attrs) n)) k = py_getattr (PNode c attrs) k"
  using frozen_all[of c] by simp

theorem nodes_are_immutable_witness:
  "py_setattr (PNode AstExpressionBinary
       [(''operator'', PStr ''+''), (''left'', PNode AstValue [(''value'', PInt 1)]),
        (''right'', PNode AstValue [(''value'', PInt 2)])])
     ''operator'' (PStr ''-'')
   = (Inl FrozenInstanceError,
      PNode AstExpressionBinary
       [(''operator'', PStr ''+''), (''left'', PNode AstValue [(''value'', PInt 1)]),
        (''right'', PNode AstValue [(''value'', PInt 2)])]) \<and>
   py_delattr (PNode AstIdentifier [(''value'', PStr ''x'')]) ''value''
   = (Inl FrozenInstanceError, PNode AstIdentifier [(''value'', PStr ''x'')])"
  using nodes_are_immutable[of AstExpressionBinary
      "[(''operator'', PStr ''+''), (''left'', PNode AstValue [(''value'', PInt 1)]),
        (''right'', PNode AstValue [(''value'', PInt 2)])]" "''operator''" "PStr ''-''"]
    nodes_are_immutable[of AstIdentifier "[(''value'', PStr ''x'')]" "''value''"]
  by blast

section \<open>Targets and expressions\<close>

lemma mro_cases:
  "mro c = (case base c of None \<Rightarrow> [c]
     | Some b \<Rightarrow> (case base b of None \<Rightarrow> [c, b]
        | Some a \<Rightarrow> (case base a of None \<Rightarrow> [c, b, a] | Some z \<Rightarrow> c # b # a # mro z)))"
  by (simp add: mro_external mro_step split: option.splits)

lemma expression_or_target:
  "\<not> (issubclass c AstExpression \<and> issubclass c AstTarget)"
  by (cases c) (simp_all add: issubclass_def mro_cases)

lemma subclasses_of_expression:
  "issubclass c AstExpression \<longleftrightarrow>
     c \<in> {AstExpression, AstExpressionBinary, AstExpressionUnary, AstValue, AstIdentifier,
          AstFormatString, AstTuple, AstList, AstDict, AstAttribute, AstLookup, AstCall}"
  by (cases c) (simp_all add: issubclass_def mro_cases)

lemma subclasses_of_target:
  "issubclass c AstTarget \<longleftrightarrow>
     c \<in> {AstTarget, AstTargetIdentifier, AstTargetUnpack, AstTargetAttribute, AstTargetItem}"
  by (cases c) (simp_all add: issubclass_def mro_cases)

text \<open>
  C5. No class is both an expression and a target: the subclasses of
  \<^verbatim>\<open>AstTarget\<close> are \<^verbatim>\<open>AstTarget\<close> itself and the four target variants, the
  subclasses of \<^verbatim>\<open>AstExpression\<close> are \<^verbatim>\<open>AstExpression\<close> itself and the eleven
  expression variants, and the two sets are disjoint. So a node of a target class
  is never of type \<^verbatim>\<open>AstExpression\<close> and a node of an expression class is never
  of type \<^verbatim>\<open>AstTarget\<close>, although \<^verbatim>\<open>AstTargetAttribute.value\<close> and
  \<^verbatim>\<open>AstTargetItem.value\<close> are annotated \<^verbatim>\<open>AstExpression\<close>.
\<close>

theorem target_and_expression_disjoint:
  "\<not> (issubclass c AstExpression \<and> issubclass c AstTarget) \<and>
   (issubclass c AstTarget \<longleftrightarrow>
      c \<in> {AstTarget, AstTargetIdentifier, AstTargetUnpack, AstTargetAttribute,
           AstTargetItem}) \<and>
   (issubclass c AstExpression \<longleftrightarrow>
      c \<in> {AstExpression, AstExpressionBinary, AstExpressionUnary, AstValue, AstIdentifier,
           AstFormatString, AstTuple, AstList, AstDict, AstAttribute, AstLookup, AstCall}) \<and>
   (issubclass c AstTarget \<longrightarrow> \<not> accepts (TCls AstExpression) (PNode c attrs)) \<and>
   (issubclass c AstExpression \<longrightarrow> \<not> accepts (TCls AstTarget) (PNode c attrs)) \<and>
   (accepts (TCls AstTarget) (PNode c attrs) \<longleftrightarrow> issubclass c AstTarget) \<and>
   (accepts (TCls AstExpression) (PNode c attrs) \<longleftrightarrow> issubclass c AstExpression) \<and>
   map (\<lambda>f. (fname f, ftype f)) (own_fields AstTargetAttribute)
     = [(''name'', TStr), (''value'', TCls AstExpression)] \<and>
   map (\<lambda>f. (fname f, ftype f)) (own_fields AstTargetItem)
     = [(''value'', TCls AstExpression),
        (''arguments'', TChildren (TUnion [TCls AstExpression, TCls AstSlice]))] \<and>
   map (\<lambda>f. (fname f, ftype f)) (own_fields AstAssignment)
     = [(''operator'', TStr), (''target'', TCls AstTarget), (''value'', TCls AstExpression)]"
  using expression_or_target[of c] subclasses_of_target[of c] subclasses_of_expression[of c]
  by (simp add: required_field_def)

theorem target_and_expression_disjoint_witness:
  "\<not> accepts (TCls AstExpression) (PNode AstTargetIdentifier
        [(''value'', PStr ''x''), (''rebind'', PBool False)]) \<and>
   accepts (TCls AstTarget) (PNode AstTargetIdentifier
        [(''value'', PStr ''x''), (''rebind'', PBool False)]) \<and>
   \<not> accepts (TCls AstTarget) (PNode AstIdentifier [(''value'', PStr ''x'')]) \<and>
   accepts (TCls AstExpression) (PNode AstIdentifier [(''value'', PStr ''x'')])"
  using target_and_expression_disjoint[of AstTargetIdentifier
      "[(''value'', PStr ''x''), (''rebind'', PBool False)]"]
    target_and_expression_disjoint[of AstIdentifier "[(''value'', PStr ''x'')]"]
  by simp

section \<open>Structural equality\<close>

lemma py_eq_list_iff: "py_eq_list e xs ys \<longleftrightarrow> list_all2 (py_eq e) xs ys"
proof (induction xs arbitrary: ys)
  case Nil
  then show ?case by (cases ys) simp_all
next
  case (Cons x xs)
  then show ?case by (cases ys) simp_all
qed

lemma py_eq_list_nth:
  "py_eq_list e xs ys \<longleftrightarrow>
     length xs = length ys \<and> (\<forall>i < length xs. py_eq e (xs ! i) (ys ! i))"
  by (simp add: py_eq_list_iff list_all2_conv_all_nth)

lemma py_eq_attrs_iff:
  "map fst as = map fst bs \<Longrightarrow> distinct (map fst as) \<Longrightarrow>
   py_eq_attrs e names as bs \<longleftrightarrow>
     (\<forall>k \<in> set names. k \<in> fst ` set as \<longrightarrow>
        (\<exists>v w. map_of as k = Some v \<and> map_of bs k = Some w \<and> py_eq e v w))"
proof (induction as arbitrary: bs)
  case Nil
  then show ?case by simp
next
  case (Cons a as)
  then obtain b bs' where bs: "bs = b # bs'" by (cases bs) auto
  obtain k v where a: "a = (k, v)" by (cases a)
  obtain k' w where b: "b = (k', w)" by (cases b)
  have kk: "k' = k" using Cons.prems(1) by (simp add: bs a b)
  have nk: "k \<notin> fst ` set as" using Cons.prems(2) by (simp add: a)
  have ih: "py_eq_attrs e names as bs' \<longleftrightarrow>
     (\<forall>k \<in> set names. k \<in> fst ` set as \<longrightarrow>
        (\<exists>v w. map_of as k = Some v \<and> map_of bs' k = Some w \<and> py_eq e v w))"
    using Cons.prems by (intro Cons.IH) (simp_all add: bs)
  show ?case unfolding bs a b kk using nk by (auto simp: ih)
qed

lemma init_attrs_keys: "init_attrs c fs b = Inr attrs \<Longrightarrow> map fst attrs = map fname fs"
  by (induction fs arbitrary: attrs) (auto split: sum.splits)

lemma construct_node:
  assumes "construct e c args kw = Inr n"
  shows "\<exists>attrs. n = PNode c attrs \<and> map fst attrs = field_names e c"
  using assms init_attrs_keys[of c "fields_of e c"]
  by (auto simp: construct_def field_names_def split: sum.splits)

lemma getattr_map_of:
  "py_getattr (PNode c attrs) k = (case map_of attrs k of Some v \<Rightarrow> Inr v | None \<Rightarrow> Inl AttributeError)"
  by simp

lemma compared_are_names: "set (compared e c) \<subseteq> set (field_names e c)"
  by (auto simp: compared_def field_names_def)

lemma node_eq_iff:
  assumes "construct e c args1 kw1 = Inr n1" "construct e c args2 kw2 = Inr n2"
  shows "py_eq e n1 n2 \<longleftrightarrow>
     (\<forall>k \<in> set (compared e c).
        \<exists>v w. py_getattr n1 k = Inr v \<and> py_getattr n2 k = Inr w \<and> py_eq e v w)"
proof -
  obtain as where as: "n1 = PNode c as" "map fst as = field_names e c"
    using construct_node[OF assms(1)] by blast
  obtain bs where bs: "n2 = PNode c bs" "map fst bs = field_names e c"
    using construct_node[OF assms(2)] by blast
  have d: "distinct (map fst as)" using as(2) distinct_field_names[of e c] by simp
  have keys: "k \<in> fst ` set as" if "k \<in> set (compared e c)" for k
  proof -
    have "k \<in> set (map fst as)" using that compared_are_names[of e c] as(2) by auto
    then show ?thesis by simp
  qed
  have "py_eq e n1 n2 \<longleftrightarrow> py_eq_attrs e (compared e c) as bs"
    by (simp add: as(1) bs(1))
  also have "\<dots> \<longleftrightarrow> (\<forall>k \<in> set (compared e c). k \<in> fst ` set as \<longrightarrow>
        (\<exists>v w. map_of as k = Some v \<and> map_of bs k = Some w \<and> py_eq e v w))"
    using as(2) bs(2) d by (intro py_eq_attrs_iff) simp_all
  also have "\<dots> \<longleftrightarrow> (\<forall>k \<in> set (compared e c).
        \<exists>v w. py_getattr n1 k = Inr v \<and> py_getattr n2 k = Inr w \<and> py_eq e v w)"
    unfolding as(1) bs(1) getattr_map_of using keys
    by (intro ball_cong refl) (auto split: option.splits)
  finally show ?thesis .
qed

lemma own_fields_compared: "f \<in> set (own_fields c) \<Longrightarrow> fcompare f"
  by (cases c) (auto simp: required_field_def default_field_def)

lemma own_field_is_compared:
  assumes "\<not> external c" "f \<in> set (own_fields c)"
  shows "fname f \<in> set (compared e c)"
  using own_field_is_field[OF assms, of e] own_fields_compared[OF assms(2)]
  by (auto simp: compared_def)

lemma different_children_unequal:
  assumes "construct e c args1 kw1 = Inr n1" "construct e c args2 kw2 = Inr n2"
    and "k \<in> set (compared e c)"
    and "py_getattr n1 k = Inr (PChildren xs)" "py_getattr n2 k = Inr (PChildren ys)"
    and "\<not> (length xs = length ys \<and> (\<forall>i < length xs. py_eq e (xs ! i) (ys ! i)))"
  shows "\<not> py_eq e n1 n2"
proof
  assume "py_eq e n1 n2"
  then obtain v w where vw: "py_getattr n1 k = Inr v" "py_getattr n2 k = Inr w" "py_eq e v w"
    using node_eq_iff[OF assms(1,2)] assms(3) by blast
  have "v = PChildren xs" "w = PChildren ys" using vw(1,2) assms(4,5) by simp_all
  then have "py_eq_list e xs ys" using vw(3) by simp
  then show False using assms(6) by (simp add: py_eq_list_nth)
qed

text \<open>
  C3. Two nodes built by calls of the same class are equal exactly when, for
  every compared attribute, the two values are equal; every attribute declared in
  the module is compared. Two child containers are equal exactly when they have
  the same length and equal elements at every position, so two nodes that differ
  in the order of a sequence attribute are unequal. A node holds each sequence as
  it was passed: nothing sorts or removes duplicates. Nodes of different classes
  are never equal. (Whether an attribute of an imported base is compared is for
  the imported package to say; \<open>compared\<close> leaves out those that are not.)
\<close>

theorem structural_equality:
  "(\<forall>args1 kw1 args2 kw2 n1 n2.
      construct e c args1 kw1 = Inr n1 \<longrightarrow> construct e c args2 kw2 = Inr n2 \<longrightarrow>
      (py_eq e n1 n2 \<longleftrightarrow>
         (\<forall>k \<in> set (compared e c).
            \<exists>v w. py_getattr n1 k = Inr v \<and> py_getattr n2 k = Inr w \<and> py_eq e v w))) \<and>
   (\<forall>f. \<not> external c \<longrightarrow> f \<in> set (own_fields c) \<longrightarrow> fname f \<in> set (compared e c)) \<and>
   (\<forall>xs ys. py_eq e (PChildren xs) (PChildren ys) \<longleftrightarrow>
      length xs = length ys \<and> (\<forall>i < length xs. py_eq e (xs ! i) (ys ! i))) \<and>
   (\<forall>args1 kw1 args2 kw2 n1 n2 k xs ys.
      construct e c args1 kw1 = Inr n1 \<longrightarrow> construct e c args2 kw2 = Inr n2 \<longrightarrow>
      k \<in> set (compared e c) \<longrightarrow>
      py_getattr n1 k = Inr (PChildren xs) \<longrightarrow> py_getattr n2 k = Inr (PChildren ys) \<longrightarrow>
      \<not> (length xs = length ys \<and> (\<forall>i < length xs. py_eq e (xs ! i) (ys ! i))) \<longrightarrow>
      \<not> py_eq e n1 n2) \<and>
   (\<forall>kw n k xs.
      construct e c [] kw = Inr n \<longrightarrow> distinct (map fst kw) \<longrightarrow>
      (k, PChildren xs) \<in> set kw \<longrightarrow> py_getattr n k = Inr (PChildren xs)) \<and>
   (\<forall>d as bs. c \<noteq> d \<longrightarrow> \<not> py_eq e (PNode c as) (PNode d bs))"
proof (intro conjI allI impI)
  fix args1 args2 :: "pyval list" and kw1 kw2 :: "(string \<times> pyval) list" and n1 n2
  assume "construct e c args1 kw1 = Inr n1" "construct e c args2 kw2 = Inr n2"
  then show "py_eq e n1 n2 \<longleftrightarrow>
         (\<forall>k \<in> set (compared e c).
            \<exists>v w. py_getattr n1 k = Inr v \<and> py_getattr n2 k = Inr w \<and> py_eq e v w)"
    by (rule node_eq_iff)
next
  fix f
  assume "\<not> external c" "f \<in> set (own_fields c)"
  then show "fname f \<in> set (compared e c)" by (rule own_field_is_compared)
next
  fix xs ys
  show "py_eq e (PChildren xs) (PChildren ys) \<longleftrightarrow>
      length xs = length ys \<and> (\<forall>i < length xs. py_eq e (xs ! i) (ys ! i))"
    by (simp add: py_eq_list_nth)
next
  fix args1 args2 :: "pyval list" and kw1 kw2 :: "(string \<times> pyval) list" and n1 n2 k xs ys
  assume "construct e c args1 kw1 = Inr n1" "construct e c args2 kw2 = Inr n2"
    "k \<in> set (compared e c)"
    "py_getattr n1 k = Inr (PChildren xs)" "py_getattr n2 k = Inr (PChildren ys)"
    "\<not> (length xs = length ys \<and> (\<forall>i < length xs. py_eq e (xs ! i) (ys ! i)))"
  then show "\<not> py_eq e n1 n2" by (rule different_children_unequal)
next
  fix kw :: "(string \<times> pyval) list" and n k xs
  assume c: "construct e c [] kw = Inr n" and d: "distinct (map fst kw)"
    and k: "(k, PChildren xs) \<in> set kw"
  show "py_getattr n k = Inr (PChildren xs)"
  proof (cases "bind_args (field_names e c) [] kw")
    case (Inl err)
    then show ?thesis using c by (simp add: construct_def)
  next
    case (Inr b)
    then have b: "b = kw" using bind_args_Inr by fastforce
    have sub: "fst ` set kw \<subseteq> set (field_names e c)"
      using bind_args_Inr[OF Inr] b by simp
    obtain attrs where a: "init_attrs c (fields_of e c) kw = Inr attrs" "n = PNode c attrs"
      using c Inr b by (auto simp: construct_def split: sum.splits)
    have all: "\<forall>f \<in> set (fields_of e c). field_value f kw \<noteq> None"
    proof (rule ccontr)
      assume "\<not> ?thesis"
      then obtain f where "f \<in> set (fields_of e c)" "field_value f kw = None" by blast
      from init_attrs_missing[OF this, of c] a(1) show False by auto
    qed
    have attrs: "attrs = map (\<lambda>f. (fname f, the (field_value f kw))) (fields_of e c)"
      using init_attrs_ok[OF all, of c] a(1) by simp
    have "k \<in> fname ` set (fields_of e c)"
      using sub k by (force simp: field_names_def)
    from getattr_supplied[OF d k this] show ?thesis by (simp only: a(2) attrs)
  qed
next
  fix d as bs
  assume "c \<noteq> d"
  then show "\<not> py_eq e (PNode c as) (PNode d bs)" by simp
qed

theorem structural_equality_witness:
  "py_eq sample_env
     (PNode AstTuple [(''items'', PChildren [PNode AstValue [(''value'', PInt 1)],
                                            PNode AstValue [(''value'', PInt 2)]])])
     (PNode AstTuple [(''items'', PChildren [PNode AstValue [(''value'', PInt 1)],
                                            PNode AstValue [(''value'', PInt 2)]])]) \<and>
   \<not> py_eq sample_env
     (PNode AstTuple [(''items'', PChildren [PNode AstValue [(''value'', PInt 1)],
                                            PNode AstValue [(''value'', PInt 2)]])])
     (PNode AstTuple [(''items'', PChildren [PNode AstValue [(''value'', PInt 2)],
                                            PNode AstValue [(''value'', PInt 1)]])])"
proof -
  let ?a = "PNode AstValue [(''value'', PInt 1)]"
  let ?b = "PNode AstValue [(''value'', PInt 2)]"
  let ?n1 = "PNode AstTuple [(''items'', PChildren [?a, ?b])]"
  let ?n2 = "PNode AstTuple [(''items'', PChildren [?b, ?a])]"
  have c1: "construct sample_env AstTuple [] [(''items'', PChildren [?a, ?b])] = Inr ?n1"
    by code_simp
  have c2: "construct sample_env AstTuple [] [(''items'', PChildren [?b, ?a])] = Inr ?n2"
    by code_simp
  have cmp: "compared sample_env AstTuple = [''items'']" by code_simp
  have ab: "\<not> py_eq sample_env ?a ?b" by code_simp
  have aa: "py_eq sample_env ?a ?a" "py_eq sample_env ?b ?b" by code_simp+
  note claim = structural_equality[of sample_env AstTuple]
  from claim[THEN conjunct1, THEN spec, THEN spec, THEN spec, THEN spec, THEN spec, THEN spec,
      THEN mp, OF c1, THEN mp, OF c1]
  have 1: "py_eq sample_env ?n1 ?n1"
    using aa by (simp add: cmp)
  from claim[THEN conjunct1, THEN spec, THEN spec, THEN spec, THEN spec, THEN spec, THEN spec,
      THEN mp, OF c1, THEN mp, OF c2]
  have 2: "\<not> py_eq sample_env ?n1 ?n2"
    using ab by (simp add: cmp)
  from 1 2 show ?thesis by blast
qed

section \<open>Hashing and equality\<close>

lemma hash_respects_eq:
  assumes "\<forall>x y. obj_eq e x y \<longrightarrow> obj_hash e x = obj_hash e y"
    and "\<forall>xs ys. py_eq_list e xs ys \<longrightarrow> children_hash e xs = children_hash e ys"
  shows "py_eq e a b \<Longrightarrow> py_hash e a = py_hash e b"
    and "py_eq_list e xs ys \<Longrightarrow> True"
    and "py_eq_attrs e names as bs \<Longrightarrow> py_hash_attrs e names as = py_hash_attrs e names bs"
  using assms
  by (induction e a b and e xs ys and e names as bs rule: py_eq_py_eq_list_py_eq_attrs.induct)
    (auto split: sum.splits)

lemma value_with_list_unhashable:
  "py_hash e (PNode AstValue [(''value'', PList xs)]) = Inl TypeError"
proof -
  have "fname (required_field ''value'' TAny) \<in> set (compared e AstValue)"
    by (rule own_field_is_compared) (simp_all add: external_def)
  then show ?thesis by (simp add: required_field_def)
qed

text \<open>
  C10, as amended. Two values that compare equal have the same hash outcome,
  the same hash value or the same error, whenever the hashes of the objects of
  referenced classes and of \<^verbatim>\<open>AstChildren\<close> agree with their equality. A node
  need not have a hash value: \<^verbatim>\<open>AstValue\<close> holding a list is equal to itself
  and hashing it raises \<^verbatim>\<open>TypeError\<close>.
\<close>

theorem hash_consistent_with_equality:
  "((\<forall>x y. obj_eq e x y \<longrightarrow> obj_hash e x = obj_hash e y) \<longrightarrow>
    (\<forall>xs ys. py_eq_list e xs ys \<longrightarrow> children_hash e xs = children_hash e ys) \<longrightarrow>
    py_eq e a b \<longrightarrow> py_hash e a = py_hash e b) \<and>
   py_hash e (PNode AstValue [(''value'', PList xs)]) = Inl TypeError"
  using hash_respects_eq(1)[of e a b] value_with_list_unhashable[of e xs] by blast

theorem hash_consistent_with_equality_witness:
  "py_eq sample_env (PNode AstValue [(''value'', PBool True)])
                    (PNode AstValue [(''value'', PInt 1)]) \<and>
   py_hash sample_env (PNode AstValue [(''value'', PBool True)])
     = py_hash sample_env (PNode AstValue [(''value'', PInt 1)]) \<and>
   py_hash sample_env (PNode AstValue [(''value'', PInt 1)]) = Inr 1"
proof -
  have 1: "\<forall>x y. obj_eq sample_env x y \<longrightarrow> obj_hash sample_env x = obj_hash sample_env y"
    by (simp add: sample_env_def)
  have 2: "\<forall>xs ys. py_eq_list sample_env xs ys \<longrightarrow>
      children_hash sample_env xs = children_hash sample_env ys"
    by (simp add: sample_env_def py_eq_list_nth)
  have 3: "py_eq sample_env (PNode AstValue [(''value'', PBool True)])
                    (PNode AstValue [(''value'', PInt 1)])"
    by code_simp
  have 4: "py_hash sample_env (PNode AstValue [(''value'', PInt 1)]) = Inr 1"
    by code_simp
  from hash_consistent_with_equality[THEN conjunct1, THEN mp, OF 1, THEN mp, OF 2, THEN mp, OF 3]
    3 4 show ?thesis by blast
qed

text \<open>The claim as stated fails: a node built by the constructor, equal to
  itself, with no hash value.\<close>

theorem equal_nodes_without_hash:
  "construct sample_env AstValue [] [(''value'', PList [PInt 1])]
     = Inr (PNode AstValue [(''value'', PList [PInt 1])]) \<and>
   py_eq sample_env (PNode AstValue [(''value'', PList [PInt 1])])
                    (PNode AstValue [(''value'', PList [PInt 1])]) \<and>
   py_hash sample_env (PNode AstValue [(''value'', PList [PInt 1])]) = Inl TypeError"
  by code_simp

end
